theory Spec2Isabelle
  imports Complex_Main "HOL-Library.AList"
begin

section \<open>The shader generator of src/webgl/ShaderGen.js\<close>

text \<open>
  The module compiles a user function into GLSL text in three stages: a rewriter turns
  arithmetic operators of the function's syntax tree into method calls, the rewritten
  function builds a graph of node objects, and the graph is rendered to text.

  JavaScript objects have an identity and mutable fields. A node object is modelled by a
  value of the datatype \<open>node\<close> that carries its address \<open>nid\<close> and the fields that are
  written once by its constructor. The two fields that change later, \<open>usedIn\<close> (pushed
  to when the node becomes an operand) and \<open>temporaryVariable\<close> (written by
  \<open>getTemp\<close>), live in a \<open>store\<close> keyed by address, so that every reference to the same
  object reads the same value.

  A finite JavaScript number is represented by its exact rational value (every finite
  number is a rational; negative zero, infinities and NaN are not represented). Values
  that are neither nodes nor numbers are kept as the text that string interpolation gives
  for them.
\<close>

subsection \<open>Decimal text of integers\<close>

definition digit_char :: "nat \<Rightarrow> char" where
  "digit_char d = ''0123456789'' ! (d mod 10)"

function string_of_nat :: "nat \<Rightarrow> string" where
  "string_of_nat n =
     (if n < 10 then [digit_char n] else string_of_nat (n div 10) @ [digit_char (n mod 10)])"
  by pat_completeness auto
termination
  by (relation "measure (\<lambda>n. n)") auto

declare string_of_nat.simps [simp del]

definition string_of_int :: "int \<Rightarrow> string" where
  "string_of_int i = (if i < 0 then ''-'' @ string_of_nat (nat (- i)) else string_of_nat (nat i))"

subsection \<open>Nodes, values and the store\<close>

type_synonym addr = nat

text \<open>The fields every node gets from the constructor of \<open>BaseNode\<close>.\<close>

record BaseNode =
  nid :: addr
  isInternal :: bool
  srcLine :: "string option"

text \<open>
  \<open>JUndefined\<close> is \<open>undefined\<close>, \<open>JNumber\<close> a finite number, \<open>JNode\<close> a node object and
  \<open>JOther s\<close> any other value, with \<open>s\<close> the text of its string interpolation.
  The argument field of a function call node holds an array of values or a single value.
  A component node refers to its parent by the parent's address and name: it reads
  nothing else of it.
\<close>

datatype jsvalue = JUndefined | JNumber rat | JNode node | JOther string
and fargs = ArgsArray "jsvalue list" | ArgsValue jsvalue
and node =
    IntNode BaseNode jsvalue
  | FloatNode BaseNode jsvalue
  | VectorNode BaseNode "(string \<times> node) list" string
  | FunctionCallNode BaseNode string fargs string
  | VariableNode BaseNode string string "(string \<times> node) list"
  | ComponentNode BaseNode addr string string
  | BinaryOperatorNode BaseNode string node node string
  | ModulusNode BaseNode node node string

fun base :: "node \<Rightarrow> BaseNode" where
  "base (IntNode b x) = b"
| "base (FloatNode b x) = b"
| "base (VectorNode b cs t) = b"
| "base (FunctionCallNode b name args t) = b"
| "base (VariableNode b name t cs) = b"
| "base (ComponentNode b paddr pname c) = b"
| "base (BinaryOperatorNode b opr x y t) = b"
| "base (ModulusNode b x y t) = b"

text \<open>The field \<open>type\<close> of a node.\<close>

fun type_of :: "node \<Rightarrow> string" where
  "type_of (IntNode b x) = ''int''"
| "type_of (FloatNode b x) = ''float''"
| "type_of (VectorNode b cs t) = t"
| "type_of (FunctionCallNode b name args t) = t"
| "type_of (VariableNode b name t cs) = t"
| "type_of (ComponentNode b paddr pname c) = ''float''"
| "type_of (BinaryOperatorNode b opr x y t) = t"
| "type_of (ModulusNode b x y t) = t"

text \<open>
  The mutable part of the heap, and what the module reads from the JavaScript engine.
  \<open>next_addr\<close> is the address the next \<open>new\<close> returns. \<open>stackLine a\<close> is the line of
  user code that the stack trace captured by the constructor of the object at \<open>a\<close>
  reports (\<open>lines[index].trim()\<close>). \<open>numberText x\<close> is the text the engine's conversion
  of the number \<open>x\<close> to a string gives; the module's functions read it only for the
  magnitudes at which that text is not the plain decimal expansion (shortest
  round-trip digits from \<open>2^53\<close>, exponent notation from \<open>10^21\<close>).
\<close>

record store =
  next_addr :: addr
  usedIn :: "addr \<Rightarrow> addr list"
  temporaryVariable :: "addr \<Rightarrow> string option"
  stackLine :: "addr \<Rightarrow> string"
  numberText :: "rat \<Rightarrow> string"

datatype error = Error string | TypeError string

subsection \<open>Helper functions\<close>

definition isIntNode :: "node \<Rightarrow> bool" where
  "isIntNode n = (type_of n = ''int'')"

definition isFloatNode :: "node \<Rightarrow> bool" where
  "isFloatNode n = (type_of n = ''float'')"

definition isVectorNode :: "node \<Rightarrow> bool" where
  "isVectorNode n = (type_of n = ''vec2'' \<or> type_of n = ''vec3'' \<or> type_of n = ''vec4'')"

fun isBinaryOperatorNode :: "node \<Rightarrow> bool" where
  "isBinaryOperatorNode (BinaryOperatorNode b opr x y t) = True"
| "isBinaryOperatorNode (ModulusNode b x y t) = True"
| "isBinaryOperatorNode n = False"

fun instanceof_VariableNode :: "node \<Rightarrow> bool" where
  "instanceof_VariableNode (VariableNode b name t cs) = True"
| "instanceof_VariableNode n = False"

fun instanceof_ComponentNode :: "node \<Rightarrow> bool" where
  "instanceof_ComponentNode (ComponentNode b paddr pname c) = True"
| "instanceof_ComponentNode n = False"

definition isVariableNode :: "store \<Rightarrow> node \<Rightarrow> bool" where
  "isVariableNode st n =
     (instanceof_VariableNode n \<or> instanceof_ComponentNode n
      \<or> temporaryVariable st (nid (base n)) \<noteq> None)"

subsection \<open>Constructors\<close>

text \<open>
  The constructor of \<open>BaseNode\<close>: a fresh address, empty \<open>usedIn\<close>, no temporary, and
  the captured source line when the node is not internal. Which line of the stack trace
  is taken (index 5, or 4 for a binary operator node) is part of \<open>stackLine\<close>. The
  captured trace is taken to have that line, as it has whenever the constructor is
  reached through the functions the module gives to a modifier function; on a shallower
  stack the constructor would throw a \<open>TypeError\<close>, which the model leaves out.
\<close>

definition new_BaseNode :: "bool \<Rightarrow> store \<Rightarrow> BaseNode \<times> store" where
  "new_BaseNode internal st =
     (let a = next_addr st in
      (\<lparr> nid = a, isInternal = internal,
         srcLine = (if internal then None else Some (stackLine st a)) \<rparr>,
       st\<lparr> next_addr := Suc a,
           usedIn := (usedIn st)(a := []),
           temporaryVariable := (temporaryVariable st)(a := None) \<rparr>))"

text \<open>\<open>constructor(x = 0, isInternal = false)\<close>: an undefined \<open>x\<close> is replaced by 0.\<close>

definition default_zero :: "jsvalue \<Rightarrow> jsvalue" where
  "default_zero x = (if x = JUndefined then JNumber 0 else x)"

definition new_IntNode :: "jsvalue \<Rightarrow> bool \<Rightarrow> store \<Rightarrow> node \<times> store" where
  "new_IntNode x internal st =
     (let (b, st') = new_BaseNode internal st in (IntNode b (default_zero x), st'))"

definition new_FloatNode :: "jsvalue \<Rightarrow> bool \<Rightarrow> store \<Rightarrow> node \<times> store" where
  "new_FloatNode x internal st =
     (let (b, st') = new_BaseNode internal st in (FloatNode b (default_zero x), st'))"

text \<open>
  \<open>VectorNode\<close>: one internal \<open>FloatNode\<close> per entry of
  \<open>['x','y','z','w'].slice(0, values.length)\<close>, wrapping \<open>values[i]\<close>.
\<close>

fun new_components :: "string list \<Rightarrow> jsvalue list \<Rightarrow> store \<Rightarrow> (string \<times> node) list \<times> store" where
  "new_components (c # cs) (v # vs) st =
     (let (n, st1) = new_FloatNode v True st;
          (rest, st2) = new_components cs vs st1
      in ((c, n) # rest, st2))"
| "new_components cs vs st = ([], st)"

definition new_VectorNode :: "jsvalue list \<Rightarrow> string \<Rightarrow> bool \<Rightarrow> store \<Rightarrow> node \<times> store" where
  "new_VectorNode values t internal st =
     (let (b, st1) = new_BaseNode internal st;
          (cs, st2) = new_components (take (length values) [''x'', ''y'', ''z'', ''w'']) values st1
      in (VectorNode b cs t, st2))"

definition new_FunctionCallNode :: "string \<Rightarrow> fargs \<Rightarrow> string \<Rightarrow> bool \<Rightarrow> store \<Rightarrow> node \<times> store" where
  "new_FunctionCallNode name args t internal st =
     (let (b, st1) = new_BaseNode internal st in (FunctionCallNode b name args t, st1))"

text \<open>
  The field \<open>name\<close> as a component node reads it from its parent; a node without that
  field gives \<open>undefined\<close>, which interpolates as the text \<open>undefined\<close>.
\<close>

fun name_of :: "node \<Rightarrow> string" where
  "name_of (VariableNode b name t cs) = name"
| "name_of (FunctionCallNode b name args t) = name"
| "name_of n = ''undefined''"

definition new_ComponentNode :: "node \<Rightarrow> string \<Rightarrow> bool \<Rightarrow> store \<Rightarrow> node \<times> store" where
  "new_ComponentNode parent component internal st =
     (let (b, st1) = new_BaseNode internal st
      in (ComponentNode b (nid (base parent)) (name_of parent) component, st1))"

text \<open>\<open>this[componentName] = value\<close> on a variable node.\<close>

fun set_property :: "node \<Rightarrow> string \<Rightarrow> node \<Rightarrow> node" where
  "set_property (VariableNode b name t cs) k v = VariableNode b name t (AList.update k v cs)"
| "set_property n k v = n"

fun properties :: "node \<Rightarrow> (string \<times> node) list" where
  "properties (VariableNode b name t cs) = cs"
| "properties (VectorNode b cs t) = cs"
| "properties n = []"

definition addComponent :: "node \<Rightarrow> string \<Rightarrow> store \<Rightarrow> node \<times> store" where
  "addComponent this componentName st =
     (let (c, st1) = new_ComponentNode this componentName True st
      in (set_property this componentName c, st1))"

text \<open>
  The table \<open>options\<close> of \<open>autoAddVectorComponents\<close>, with its default \<open>[]\<close>. The
  type is taken not to be the name of a property that the table inherits as an object
  (such as \<open>constructor\<close>), for which the lookup gives a value that is not a list.
\<close>

definition options :: "string \<Rightarrow> string list" where
  "options t =
     (if t = ''vec2'' then [''x'', ''y'']
      else if t = ''vec3'' then [''x'', ''y'', ''z'']
      else if t = ''vec4'' then [''x'', ''y'', ''z'', ''w'']
      else [])"

fun addComponents :: "node \<Rightarrow> string list \<Rightarrow> store \<Rightarrow> node \<times> store" where
  "addComponents this [] st = (this, st)"
| "addComponents this (componentName # componentNames) st =
     (let (this1, st1) = addComponent this componentName st
      in addComponents this1 componentNames st1)"

definition autoAddVectorComponents :: "node \<Rightarrow> store \<Rightarrow> node \<times> store" where
  "autoAddVectorComponents this st = addComponents this (options (type_of this)) st"

definition new_VariableNode :: "string \<Rightarrow> string \<Rightarrow> bool \<Rightarrow> store \<Rightarrow> node \<times> store" where
  "new_VariableNode name t internal st =
     (let (b, st1) = new_BaseNode internal st
      in autoAddVectorComponents (VariableNode b name t []) st1)"

text \<open>\<open>operand.usedIn.push(this)\<close>\<close>

definition push_usedIn :: "addr \<Rightarrow> node \<Rightarrow> store \<Rightarrow> store" where
  "push_usedIn this operand st =
     st\<lparr> usedIn := (usedIn st)(nid (base operand) := usedIn st (nid (base operand)) @ [this]) \<rparr>"

definition determineType :: "node \<Rightarrow> node \<Rightarrow> error + string" where
  "determineType a b =
     (if type_of a = type_of b then Inr (type_of a)
      else if isVectorNode a \<and> isFloatNode b then Inr (type_of a)
      else if isVectorNode b \<and> isFloatNode a then Inr (type_of b)
      else if isFloatNode a \<and> isIntNode b \<or> isIntNode a \<and> isFloatNode b then Inr ''float''
      else Inl (Error ''Incompatible types for binary operator''))"

text \<open>
  The constructor of \<open>BinaryOperatorNode\<close> registers the new object with both operands
  before it computes the type, so the store keeps the registration when the constructor
  throws.
\<close>

definition new_BinaryOperatorNode ::
  "node \<Rightarrow> node \<Rightarrow> string \<Rightarrow> bool \<Rightarrow> store \<Rightarrow> (error + node) \<times> store" where
  "new_BinaryOperatorNode a b operator internal st =
     (let (bs, st1) = new_BaseNode internal st;
          st2 = push_usedIn (nid bs) a st1;
          st3 = push_usedIn (nid bs) b st2
      in (case determineType a b of
            Inl e \<Rightarrow> (Inl e, st3)
          | Inr t \<Rightarrow> (Inr (BinaryOperatorNode bs operator a b t), st3)))"

text \<open>\<open>ModulusNode\<close> calls \<open>super(a, b)\<close>: the same constructor, with no operator.\<close>

definition new_ModulusNode :: "node \<Rightarrow> node \<Rightarrow> store \<Rightarrow> (error + node) \<times> store" where
  "new_ModulusNode a b st =
     (let (bs, st1) = new_BaseNode False st;
          st2 = push_usedIn (nid bs) a st1;
          st3 = push_usedIn (nid bs) b st2
      in (case determineType a b of
            Inl e \<Rightarrow> (Inl e, st3)
          | Inr t \<Rightarrow> (Inr (ModulusNode bs a b t), st3)))"

subsection \<open>Operand coercion and the arithmetic methods\<close>

text \<open>
  The operand of an arithmetic method is a node or a number, the two shapes the first two
  branches of \<open>enforceType\<close> handle. The third branch, \<open>new this.constructor(other)\<close>
  for any other value, is not part of the model: the type of operands has no such value.
\<close>

datatype operand = NodeOperand node | NumberOperand rat

definition enforceType :: "node \<Rightarrow> operand \<Rightarrow> store \<Rightarrow> (error + node) \<times> store" where
  "enforceType this other st =
     (case other of
        NodeOperand n \<Rightarrow>
          (if (isFloatNode this \<or> isVectorNode this) \<and> isIntNode n
           then (let (f, st1) = new_FloatNode (JNode n) False st in (Inr f, st1))
           else (Inr n, st))
      | NumberOperand r \<Rightarrow>
          (if isIntNode this
           then (let (i, st1) = new_IntNode (JNumber r) False st in (Inr i, st1))
           else (let (f, st1) = new_FloatNode (JNumber r) False st in (Inr f, st1))))"

definition binary_method :: "string \<Rightarrow> node \<Rightarrow> operand \<Rightarrow> store \<Rightarrow> (error + node) \<times> store" where
  "binary_method operator this other st =
     (case enforceType this other st of
        (Inl e, st1) \<Rightarrow> (Inl e, st1)
      | (Inr b, st1) \<Rightarrow> new_BinaryOperatorNode this b operator False st1)"

definition add :: "node \<Rightarrow> operand \<Rightarrow> store \<Rightarrow> (error + node) \<times> store" where
  "add = binary_method ''+''"

definition sub :: "node \<Rightarrow> operand \<Rightarrow> store \<Rightarrow> (error + node) \<times> store" where
  "sub = binary_method ''-''"

definition mult :: "node \<Rightarrow> operand \<Rightarrow> store \<Rightarrow> (error + node) \<times> store" where
  "mult = binary_method ''*''"

definition div_node :: "node \<Rightarrow> operand \<Rightarrow> store \<Rightarrow> (error + node) \<times> store" where
  "div_node = binary_method ''/''"

definition mod_node :: "node \<Rightarrow> operand \<Rightarrow> store \<Rightarrow> (error + node) \<times> store" where
  "mod_node this other st =
     (case enforceType this other st of
        (Inl e, st1) \<Rightarrow> (Inl e, st1)
      | (Inr b, st1) \<Rightarrow> new_ModulusNode this b st1)"

definition sin_node :: "node \<Rightarrow> store \<Rightarrow> node \<times> store" where
  "sin_node this st = new_FunctionCallNode ''sin'' (ArgsValue (JNode this)) ''float'' False st"

definition cos_node :: "node \<Rightarrow> store \<Rightarrow> node \<times> store" where
  "cos_node this st = new_FunctionCallNode ''cos'' (ArgsValue (JNode this)) ''float'' False st"

definition radians :: "node \<Rightarrow> store \<Rightarrow> node \<times> store" where
  "radians this st = new_FunctionCallNode ''radians'' (ArgsValue (JNode this)) ''float'' False st"

definition abs_node :: "node \<Rightarrow> store \<Rightarrow> node \<times> store" where
  "abs_node this st = new_FunctionCallNode ''abs'' (ArgsValue (JNode this)) (type_of this) False st"

text \<open>The node constructors exported to user code.\<close>

definition createVector2 :: "jsvalue \<Rightarrow> jsvalue \<Rightarrow> store \<Rightarrow> node \<times> store" where
  "createVector2 x y st = new_VectorNode [x, y] ''vec2'' False st"

definition createVector3 :: "jsvalue \<Rightarrow> jsvalue \<Rightarrow> jsvalue \<Rightarrow> store \<Rightarrow> node \<times> store" where
  "createVector3 x y z st = new_VectorNode [x, y, z] ''vec3'' False st"

definition createVector4 :: "jsvalue \<Rightarrow> jsvalue \<Rightarrow> jsvalue \<Rightarrow> jsvalue \<Rightarrow> store \<Rightarrow> node \<times> store" where
  "createVector4 x y z w st = new_VectorNode [x, y, z, w] ''vec4'' False st"

definition createFloat :: "jsvalue \<Rightarrow> store \<Rightarrow> node \<times> store" where
  "createFloat x st = new_FloatNode x False st"

definition createInt :: "jsvalue \<Rightarrow> store \<Rightarrow> node \<times> store" where
  "createInt x st = new_IntNode x False st"

definition instanceID :: "store \<Rightarrow> node \<times> store" where
  "instanceID st = new_VariableNode ''gl_InstanceID'' ''int'' False st"

definition uvCoords :: "store \<Rightarrow> node \<times> store" where
  "uvCoords st = new_VariableNode ''vTexCoord'' ''vec2'' False st"

definition discard :: "store \<Rightarrow> node \<times> store" where
  "discard st = new_VariableNode ''discard'' ''keyword'' False st"

subsection \<open>Number formatting\<close>

text \<open>
  \<open>Number.prototype.toFixed(f)\<close> as ECMAScript defines it on the exact value of the
  number: the sign is split off, \<open>n\<close> is the integer for which \<open>n / 10^f\<close> is nearest to
  the value (the larger one on a tie), and its digits are padded with zeros to at least
  \<open>f + 1\<close> places before the point is inserted. From \<open>10^21\<close> on the method returns
  the sign and the engine's text of the magnitude. The first argument is the engine's
  conversion of a number to a string.
\<close>

definition toFixed :: "(rat \<Rightarrow> string) \<Rightarrow> nat \<Rightarrow> rat \<Rightarrow> string" where
  "toFixed engine f x =
     (let s = (if x < 0 then ''-'' else []);
          ax = \<bar>x\<bar>
      in if 10 ^ 21 \<le> ax then s @ engine ax
         else
           let n = nat \<lfloor>ax * 10 ^ f + 1 / 2\<rfloor>;
               m = string_of_nat n;
               m1 = (if length m \<le> f then replicate (f + 1 - length m) CHR ''0'' @ m else m);
               k = length m1
           in if f = 0 then s @ m
              else s @ take (k - f) m1 @ ''.'' @ drop (k - f) m1)"

text \<open>
  \<open>`${Math.floor(x)}`\<close>: the engine's text of the floor. Below \<open>2^53\<close> in magnitude
  every integer is a number of its own and the text is its decimal digits.
\<close>

definition floor_text :: "(rat \<Rightarrow> string) \<Rightarrow> rat \<Rightarrow> string" where
  "floor_text engine x =
     (if \<bar>\<lfloor>x\<rfloor>\<bar> < 2 ^ 53 then string_of_int \<lfloor>x\<rfloor> else engine (of_int \<lfloor>x\<rfloor>))"

text \<open>String interpolation of a value that is neither a node nor a number.\<close>

fun interpolate :: "jsvalue \<Rightarrow> string" where
  "interpolate JUndefined = ''undefined''"
| "interpolate (JOther s) = s"
| "interpolate v = ''[object Object]''"

subsection \<open>The render context and the temporary-variable planner\<close>

record GLSLContext =
  ctx_id :: nat
  declarations :: "string list"

definition getNextID :: "GLSLContext \<Rightarrow> nat \<times> GLSLContext" where
  "getNextID c = (ctx_id c, c\<lparr> ctx_id := ctx_id c + 1 \<rparr>)"

text \<open>
  A field holding a name is tested for truthiness: \<open>undefined\<close>, \<open>null\<close> and the empty
  string count as absent.
\<close>

definition truthy :: "string option \<Rightarrow> string option" where
  "truthy v = (case v of None \<Rightarrow> None | Some s \<Rightarrow> if s = [] then None else Some s)"

definition useTempVar :: "store \<Rightarrow> node \<Rightarrow> bool" where
  "useTempVar st this =
     (if isInternal (base this) \<or> isVariableNode st this then False
      else
        let score = (0::nat);
            score = score + of_bool (isBinaryOperatorNode this);
            score = score + of_bool (isVectorNode this) * 2;
            score = score + length (usedIn st (nid (base this)))
        in 3 < score)"

subsection \<open>Rendering\<close>

definition newline :: string where
  "newline = [CHR 0x0A]"

type_synonym 'a rendered = "(error + 'a) \<times> GLSLContext \<times> store"

function toGLSLBase :: "node \<Rightarrow> GLSLContext \<Rightarrow> store \<Rightarrow> string rendered"
and getTemp :: "node \<Rightarrow> GLSLContext \<Rightarrow> store \<Rightarrow> string rendered"
and toGLSL :: "node \<Rightarrow> GLSLContext \<Rightarrow> store \<Rightarrow> string rendered"
and processOperand :: "node \<Rightarrow> node \<Rightarrow> GLSLContext \<Rightarrow> store \<Rightarrow> string rendered"
and value_toGLSLBase :: "jsvalue \<Rightarrow> GLSLContext \<Rightarrow> store \<Rightarrow> string rendered"
and deconstructArgs :: "fargs \<Rightarrow> GLSLContext \<Rightarrow> store \<Rightarrow> string option rendered"
and components_toGLSL :: "(string \<times> node) list \<Rightarrow> GLSLContext \<Rightarrow> store \<Rightarrow> string rendered"
where
  "toGLSLBase this context st =
     (if useTempVar st this then getTemp this context st else toGLSL this context st)"
| "getTemp this context st =
     (case truthy (temporaryVariable st (nid (base this))) of
        Some t \<Rightarrow> (Inr t, context, st)
      | None \<Rightarrow>
          let (i, context1) = getNextID context;
              tmp = ''temp_'' @ string_of_nat i;
              st1 = st\<lparr> temporaryVariable := (temporaryVariable st)(nid (base this) \<mapsto> tmp) \<rparr>;
              line = (case truthy (srcLine (base this)) of
                        Some l \<Rightarrow> newline @ ''// From '' @ l @ newline
                      | None \<Rightarrow> [])
          in (case toGLSL this context1 st1 of
                (Inl e, context2, st2) \<Rightarrow> (Inl e, context2, st2)
              | (Inr code, context2, st2) \<Rightarrow>
                  (Inr tmp,
                   context2\<lparr> declarations := declarations context2 @
                      [line @ type_of this @ '' '' @ tmp @ '' = '' @ code @ '';''] \<rparr>,
                   st2)))"
| "toGLSL (IntNode b x) context st =
     (case x of
        JNode n \<Rightarrow>
          (case toGLSLBase n context st of
             (Inl e, context1, st1) \<Rightarrow> (Inl e, context1, st1)
           | (Inr code, context1, st1) \<Rightarrow> (Inr (''int('' @ code @ '')''), context1, st1))
      | JNumber r \<Rightarrow> (Inr (floor_text (numberText st) r), context, st)
      | _ \<Rightarrow> (Inr (''int('' @ interpolate x @ '')''), context, st))"
| "toGLSL (FloatNode b x) context st =
     (case x of
        JNode n \<Rightarrow>
          (case toGLSLBase n context st of
             (Inl e, context1, st1) \<Rightarrow> (Inl e, context1, st1)
           | (Inr code, context1, st1) \<Rightarrow>
               (Inr (if isFloatNode n then code else ''float('' @ code @ '')''), context1, st1))
      | JNumber r \<Rightarrow> (Inr (toFixed (numberText st) 4 r), context, st)
      | _ \<Rightarrow> (Inr (''float('' @ interpolate x @ '')''), context, st))"
| "toGLSL (VectorNode b cs t) context st =
     (case components_toGLSL cs context st of
        (Inl e, context1, st1) \<Rightarrow> (Inl e, context1, st1)
      | (Inr glslArgs, context1, st1) \<Rightarrow> (Inr (t @ ''('' @ glslArgs @ '')''), context1, st1))"
| "toGLSL (FunctionCallNode b name args t) context st =
     (case deconstructArgs args context st of
        (Inl e, context1, st1) \<Rightarrow> (Inl e, context1, st1)
      | (Inr r, context1, st1) \<Rightarrow>
          (Inr (name @ ''('' @ (case r of None \<Rightarrow> ''undefined'' | Some s \<Rightarrow> s) @ '')''),
           context1, st1))"
| "toGLSL (VariableNode b name t cs) context st = (Inr name, context, st)"
| "toGLSL (ComponentNode b paddr pname component) context st =
     (let parentName = (case truthy (temporaryVariable st paddr) of Some t \<Rightarrow> t | None \<Rightarrow> pname)
      in (Inr (parentName @ ''.'' @ component), context, st))"
| "toGLSL (BinaryOperatorNode bs opr a b t) context st =
     (case processOperand (BinaryOperatorNode bs opr a b t) a context st of
        (Inl e, context1, st1) \<Rightarrow> (Inl e, context1, st1)
      | (Inr ta, context1, st1) \<Rightarrow>
          (case processOperand (BinaryOperatorNode bs opr a b t) b context1 st1 of
             (Inl e, context2, st2) \<Rightarrow> (Inl e, context2, st2)
           | (Inr tb, context2, st2) \<Rightarrow>
               (Inr (ta @ '' '' @ opr @ '' '' @ tb), context2, st2)))"
| "toGLSL (ModulusNode bs a b t) context st =
     (if isVectorNode (ModulusNode bs a b t) \<or> isFloatNode (ModulusNode bs a b t) then
        (case toGLSLBase a context st of
           (Inl e, context1, st1) \<Rightarrow> (Inl e, context1, st1)
         | (Inr ta, context1, st1) \<Rightarrow>
             (case toGLSLBase b context1 st1 of
                (Inl e, context2, st2) \<Rightarrow> (Inl e, context2, st2)
              | (Inr tb, context2, st2) \<Rightarrow>
                  (Inr (''mod('' @ ta @ '', '' @ tb @ '')''), context2, st2)))
      else (Inl (TypeError ''operand.toGLSLBase is not a function''), context, st))"
| "processOperand this operand context st =
     (case truthy (temporaryVariable st (nid (base operand))) of
        Some t \<Rightarrow> (Inr t, context, st)
      | None \<Rightarrow>
          (case toGLSLBase operand context st of
             (Inl e, context1, st1) \<Rightarrow> (Inl e, context1, st1)
           | (Inr code, context1, st1) \<Rightarrow>
               let code1 = (if isBinaryOperatorNode operand
                               \<and> truthy (temporaryVariable st1 (nid (base operand))) = None
                            then ''('' @ code @ '')'' else code);
                   code2 = (if type_of this = ''float'' \<and> isIntNode operand
                            then ''float('' @ code1 @ '')'' else code1)
               in (Inr code2, context1, st1)))"
| "value_toGLSLBase v context st =
     (case v of
        JNode n \<Rightarrow> toGLSLBase n context st
      | _ \<Rightarrow> (Inl (TypeError ''toGLSLBase is not a function''), context, st))"
| "deconstructArgs (ArgsArray vs) context st =
     (case vs of
        [] \<Rightarrow> (Inl (TypeError ''this.args[0] is undefined''), context, st)
      | v0 # rest \<Rightarrow>
          (case value_toGLSLBase v0 context st of
             (Inl e, context1, st1) \<Rightarrow> (Inl e, context1, st1)
           | (Inr argsString, context1, st1) \<Rightarrow>
               (case rest of
                  [] \<Rightarrow> (Inr None, context1, st1)
                | arg # others \<Rightarrow>
                    (case value_toGLSLBase arg context1 st1 of
                       (Inl e, context2, st2) \<Rightarrow> (Inl e, context2, st2)
                     | (Inr s, context2, st2) \<Rightarrow>
                         (Inr (Some (argsString @ '', '' @ s)), context2, st2)))))"
| "deconstructArgs (ArgsValue v) context st =
     (case value_toGLSLBase v context st of
        (Inl e, context1, st1) \<Rightarrow> (Inl e, context1, st1)
      | (Inr s, context1, st1) \<Rightarrow> (Inr (Some s), context1, st1))"
| "components_toGLSL [] context st = (Inr [], context, st)"
| "components_toGLSL ((component, n) # rest) context st =
     (case toGLSLBase n context st of
        (Inl e, context1, st1) \<Rightarrow> (Inl e, context1, st1)
      | (Inr code, context1, st1) \<Rightarrow>
          (case components_toGLSL rest context1 st1 of
             (Inl e, context2, st2) \<Rightarrow> (Inl e, context2, st2)
           | (Inr tl_code, context2, st2) \<Rightarrow>
               (Inr (code @ (if rest = [] then [] else '', '') @ tl_code), context2, st2)))"
  by pat_completeness auto
termination
  by (relation "measure (\<lambda>x. case x of
      Inl (Inl (n, c, s)) \<Rightarrow> 4 * size n + 2
    | Inl (Inr (Inl (n, c, s))) \<Rightarrow> 4 * size n + 1
    | Inl (Inr (Inr (n, c, s))) \<Rightarrow> 4 * size n
    | Inr (Inl (Inl (this, operand, c, s))) \<Rightarrow> 4 * size operand + 3
    | Inr (Inl (Inr (v, c, s))) \<Rightarrow> 4 * size v + 3
    | Inr (Inr (Inl (args, c, s))) \<Rightarrow> 4 * size args
    | Inr (Inr (Inr (cs, c, s))) \<Rightarrow> 4 * size_list (size_prod (\<lambda>x. 0) size) cs)")
    simp_all

subsection \<open>The shader program\<close>

text \<open>
  \<open>ShaderGenerator\<close> keeps the uniform table and the generated function bodies
  (the field \<open>functions\<close>, here \<open>hook_functions\<close>; both
  JavaScript objects, kept as association lists in insertion order) and the render
  context. User code is a state transformer: a hook callback receives the hook's
  argument node and returns a value or throws.
\<close>

record ShaderGenerator =
  uniforms :: "(string \<times> jsvalue) list"
  hook_functions :: "(string \<times> string) list"
  glsl_context :: GLSLContext

type_synonym callback = "node \<Rightarrow> store \<Rightarrow> (error + jsvalue) \<times> store"

definition resetGLSLContext :: "ShaderGenerator \<Rightarrow> ShaderGenerator" where
  "resetGLSLContext this = this\<lparr> glsl_context := \<lparr> ctx_id = 0, declarations = [] \<rparr> \<rparr>"

text \<open>\<open>lines.join(sep)\<close>\<close>

fun join :: "string \<Rightarrow> string list \<Rightarrow> string" where
  "join sep [] = []"
| "join sep [x] = x"
| "join sep (x # y # ys) = x @ sep @ join sep (y # ys)"

definition buildFunction ::
  "string \<Rightarrow> string \<Rightarrow> callback \<Rightarrow> ShaderGenerator \<Rightarrow> store
     \<Rightarrow> (error + string) \<times> ShaderGenerator \<times> store" where
  "buildFunction argumentName argumentType cb this st =
     (let (functionArgument, st1) = new_VariableNode argumentName argumentType True st
      in case cb functionArgument st1 of
           (Inl e, st2) \<Rightarrow> (Inl e, this, st2)
         | (Inr returned, st2) \<Rightarrow>
             (case value_toGLSLBase returned (glsl_context this) st2 of
                (Inl e, context1, st3) \<Rightarrow> (Inl e, this\<lparr> glsl_context := context1 \<rparr>, st3)
              | (Inr finalLine, context1, st3) \<Rightarrow>
                  let codeLines = declarations context1 @
                        [newline @ argumentName @ '' = '' @ finalLine @ ''; '' @ newline
                           @ ''return '' @ argumentName @ '';''];
                      this1 = resetGLSLContext (this\<lparr> glsl_context := context1 \<rparr>)
                  in (Inr (join newline codeLines), this1, st3)))"

definition getWorldPosition ::
  "callback \<Rightarrow> ShaderGenerator \<Rightarrow> store \<Rightarrow> error option \<times> ShaderGenerator \<times> store" where
  "getWorldPosition func this st =
     (case buildFunction ''pos'' ''vec3'' func this st of
        (Inl e, this1, st1) \<Rightarrow> (Some e, this1, st1)
      | (Inr body, this1, st1) \<Rightarrow>
          (None, this1\<lparr> hook_functions := AList.update ''getWorldPosition'' body (hook_functions this1) \<rparr>, st1))"

definition getFinalColor ::
  "callback \<Rightarrow> ShaderGenerator \<Rightarrow> store \<Rightarrow> error option \<times> ShaderGenerator \<times> store" where
  "getFinalColor func this st =
     (case buildFunction ''col'' ''vec3'' func this st of
        (Inl e, this1, st1) \<Rightarrow> (Some e, this1, st1)
      | (Inr body, this1, st1) \<Rightarrow>
          (None, this1\<lparr> hook_functions := AList.update ''getFinalColor'' body (hook_functions this1) \<rparr>, st1))"

text \<open>
  The uniform declarators \<open>uniformInt\<close>, \<open>uniformFloat\<close>, \<open>uniformVector2\<close>,
  \<open>uniformVector3\<close>, \<open>uniformVector4\<close> and \<open>uniformTexture\<close> are one function
  closed over the GLSL type of the table \<open>uniformFns\<close>.
\<close>

definition uniformFns :: "(string \<times> string) list" where
  "uniformFns =
     [(''int'', ''Int''), (''float'', ''Float''), (''vec2'', ''Vector2''),
      (''vec3'', ''Vector3''), (''vec4'', ''Vector4''), (''sampler2D'', ''Texture'')]"

definition uniform ::
  "string \<Rightarrow> string \<Rightarrow> jsvalue \<Rightarrow> ShaderGenerator \<Rightarrow> store \<Rightarrow> node \<times> ShaderGenerator \<times> store" where
  "uniform t name defaultValue this st =
     (let this1 = this\<lparr> uniforms := AList.update (t @ '' '' @ name) defaultValue (uniforms this) \<rparr>;
          (v, st1) = new_VariableNode name t False st
      in (v, this1, st1))"

text \<open>
  The constructor: \<open>inspectHooks()\<close> of the shader is called (an effect outside the
  module), then the tables are emptied and the context is reset.
\<close>

definition new_ShaderGenerator :: ShaderGenerator where
  "new_ShaderGenerator =
     resetGLSLContext \<lparr> uniforms = [], hook_functions = [], glsl_context = \<lparr> ctx_id = 0, declarations = [] \<rparr> \<rparr>"

text \<open>The object \<open>callModifyFunction\<close> returns.\<close>

record modify_result =
  res_uniforms :: "(string \<times> jsvalue) list"
  res_functions :: "(string \<times> string) list"
  vertex :: "string option"
  fragment :: "string option"

type_synonym modifyFunction = "ShaderGenerator \<Rightarrow> store \<Rightarrow> error option \<times> ShaderGenerator \<times> store"

definition callModifyFunction ::
  "modifyFunction \<Rightarrow> ShaderGenerator \<Rightarrow> store \<Rightarrow> (error + modify_result) \<times> ShaderGenerator \<times> store" where
  "callModifyFunction modifyFn this st =
     (case modifyFn this st of
        (Some e, this1, st1) \<Rightarrow> (Inl e, this1, st1)
      | (None, this1, st1) \<Rightarrow>
          (Inr \<lparr> res_uniforms = uniforms this1, res_functions = hook_functions this1,
                 vertex = map_of (hook_functions this1) ''getWorldPosition'',
                 fragment = map_of (hook_functions this1) ''getFinalColor'' \<rparr>,
           this1, st1))"

text \<open>
  The replacement of \<open>p5.prototype.texture\<close>: a call whose first argument is a node
  becomes a function call node over the whole argument array; any other call goes to
  the original method (\<open>None\<close> here).
\<close>

definition texture :: "jsvalue list \<Rightarrow> store \<Rightarrow> node option \<times> store" where
  "texture args st =
     (case args of
        JNode n # rest \<Rightarrow>
          (let (f, st1) = new_FunctionCallNode ''texture'' (ArgsArray args) ''vec4'' False st
           in (Some f, st1))
      | _ \<Rightarrow> (None, st))"

subsection \<open>The operator rewriter\<close>

text \<open>
  The syntax tree is the ESTree form that the parser produces, restricted to the node
  types a modifier function is built from. An identifier's name is optional because the
  rewriter can write \<open>undefined\<close> into it. The flag of a member expression is its
  field \<open>computed\<close>.
\<close>

datatype expr =
    Identifier "string option"
  | Literal string
  | UnaryExpression string expr
  | BinaryExpression string expr expr
  | LogicalExpression string expr expr
  | AssignmentExpression string expr expr
  | MemberExpression expr expr bool
  | CallExpression expr "expr list"
  | ArrowFunctionExpression "string list" fbody
and fbody = ExpressionBody expr | BlockBody "stmt list"
and stmt =
    ExpressionStatement expr
  | ReturnStatement "expr option"
  | VariableDeclaration string "(string \<times> expr option) list"
  | BlockStatement "stmt list"

definition replaceBinaryOperator :: "string \<Rightarrow> string option" where
  "replaceBinaryOperator codeSource =
     (if codeSource = ''+'' then Some ''add''
      else if codeSource = ''-'' then Some ''sub''
      else if codeSource = ''*'' then Some ''mult''
      else if codeSource = ''/'' then Some ''div''
      else if codeSource = ''%'' then Some ''mod''
      else None)"

text \<open>\<open>operator.replace('=', '')\<close> removes the first \<open>=\<close> of the operator.\<close>

fun replace_eq :: "string \<Rightarrow> string" where
  "replace_eq [] = []"
| "replace_eq (c # cs) = (if c = CHR ''='' then cs else c # replace_eq cs)"

text \<open>The property \<open>name\<close> of a syntax node: only identifiers have one.\<close>

fun name_property :: "expr \<Rightarrow> string option" where
  "name_property (Identifier n) = n"
| "name_property e = None"

text \<open>
  The two callbacks of \<open>ASTCallbacks\<close> that change the tree, applied to a node with
  the given operator and operands. The callback for literals does nothing.
\<close>

definition AssignmentExpression_callback :: "string \<Rightarrow> expr \<Rightarrow> expr \<Rightarrow> expr" where
  "AssignmentExpression_callback operator left right =
     (if operator \<noteq> ''='' then
        (let rightReplacementNode =
               CallExpression
                 (MemberExpression (Identifier (name_property left))
                    (Identifier (replaceBinaryOperator (replace_eq operator))) False)
                 [right]
         in AssignmentExpression ''='' left rightReplacementNode)
      else AssignmentExpression operator left right)"

definition BinaryExpression_callback :: "string \<Rightarrow> expr \<Rightarrow> expr \<Rightarrow> expr" where
  "BinaryExpression_callback operator left right =
     CallExpression
       (MemberExpression left (Identifier (replaceBinaryOperator operator)) False)
       [right]"

text \<open>
  \<open>simple(ast, ASTCallbacks)\<close> of the walker library visits the children of a node
  first and calls the callback registered for the node's type afterwards.
\<close>

fun simple :: "expr \<Rightarrow> expr"
and simple_body :: "fbody \<Rightarrow> fbody"
and simple_stmt :: "stmt \<Rightarrow> stmt"
where
  "simple (Identifier n) = Identifier n"
| "simple (Literal raw) = Literal raw"
| "simple (UnaryExpression operator argument) = UnaryExpression operator (simple argument)"
| "simple (BinaryExpression operator left right) =
     BinaryExpression_callback operator (simple left) (simple right)"
| "simple (LogicalExpression operator left right) =
     LogicalExpression operator (simple left) (simple right)"
| "simple (AssignmentExpression operator left right) =
     AssignmentExpression_callback operator (simple left) (simple right)"
| "simple (MemberExpression object property computed) =
     MemberExpression (simple object) (if computed then simple property else property) computed"
| "simple (CallExpression callee arguments) =
     CallExpression (simple callee) (map simple arguments)"
| "simple (ArrowFunctionExpression params body) =
     ArrowFunctionExpression params (simple_body body)"
| "simple_body (ExpressionBody e) = ExpressionBody (simple e)"
| "simple_body (BlockBody body) = BlockBody (map simple_stmt body)"
| "simple_stmt (ExpressionStatement e) = ExpressionStatement (simple e)"
| "simple_stmt (ReturnStatement argument) = ReturnStatement (map_option simple argument)"
| "simple_stmt (VariableDeclaration kind declarators) =
     VariableDeclaration kind (map (\<lambda>(name, init). (name, map_option simple init)) declarators)"
| "simple_stmt (BlockStatement body) = BlockStatement (map simple_stmt body)"

subsection \<open>The entry point\<close>

text \<open>
  \<open>p5.Shader.prototype.modify\<close>. A modifier is a function, given by its source text
  \<open>modifier.toString()\<close>, or any other value. The parser, the code generator, the
  evaluation of generated source and the previous \<open>modify\<close> are outside the module
  and are parameters; the first three can throw. The calls the entry point makes to
  the outside besides these, \<open>inspectHooks()\<close> on the shader and \<open>console.log\<close>, are
  returned as a list in the order they happen.
\<close>

datatype 'v modifier = FunctionValue string | OtherValue 'v

record ('v, 'r) externals =
  parse :: "string \<Rightarrow> error + stmt list"
  generate :: "stmt list \<Rightarrow> string"
  new_Function :: "string \<Rightarrow> error + modifyFunction"
  oldModify :: "'v \<Rightarrow> 'r"

datatype effect = InspectHooks | LogText string | LogObject modify_result

fun indexOf :: "char \<Rightarrow> string \<Rightarrow> int" where
  "indexOf c [] = - 1"
| "indexOf c (x # xs) =
     (if x = c then 0 else (let i = indexOf c xs in if i < 0 then - 1 else i + 1))"

definition lastIndexOf :: "char \<Rightarrow> string \<Rightarrow> int" where
  "lastIndexOf c s =
     (let i = indexOf c (rev s) in if i < 0 then - 1 else int (length s) - 1 - i)"

definition slice :: "string \<Rightarrow> int \<Rightarrow> int \<Rightarrow> string" where
  "slice s start stop =
     (let len = int (length s);
          from = (if start < 0 then max (len + start) 0 else min start len);
          to = (if stop < 0 then max (len + stop) 0 else min stop len)
      in take (nat (to - from)) (drop (nat from) s))"

definition modify ::
  "('v, 'r) externals \<Rightarrow> 'v modifier \<Rightarrow> store \<Rightarrow> (error + 'r option) \<times> effect list \<times> store" where
  "modify ext modifier st =
     (case modifier of
        FunctionValue code \<Rightarrow>
          (case parse ext code of
             Inl e \<Rightarrow> (Inl e, [], st)
           | Inr ast \<Rightarrow>
               let ast1 = map simple_stmt ast;
                   transpiledArg = generate ext ast1
               in (case new_Function ext
                          (slice transpiledArg (indexOf CHR ''{'' transpiledArg + 1)
                             (lastIndexOf CHR ''}'' transpiledArg)) of
                     Inl e \<Rightarrow> (Inl e, [], st)
                   | Inr transpiledFn \<Rightarrow>
                       (case callModifyFunction transpiledFn new_ShaderGenerator st of
                          (Inl e, generator1, st1) \<Rightarrow> (Inl e, [InspectHooks], st1)
                        | (Inr newArg, generator1, st1) \<Rightarrow>
                            (Inr None,
                             [InspectHooks, LogText code, LogText transpiledArg, LogObject newArg],
                             st1))))
      | OtherValue v \<Rightarrow> (Inr (Some (oldModify ext v)), [], st))"

section \<open>Reference definitions\<close>

text \<open>
  The promotion table as the specification words it: equal types give that type; a
  vector type with \<open>float\<close> gives the vector type; \<open>float\<close> with \<open>int\<close> gives
  \<open>float\<close>; anything else is a type mismatch (\<open>None\<close>).
\<close>

definition is_vector_type :: "string \<Rightarrow> bool" where
  "is_vector_type t = (t = ''vec2'' \<or> t = ''vec3'' \<or> t = ''vec4'')"

definition promotion_table :: "string \<Rightarrow> string \<Rightarrow> string option" where
  "promotion_table A B =
     (if A = B then Some A
      else if is_vector_type A \<and> B = ''float'' then Some A
      else if is_vector_type B \<and> A = ''float'' then Some B
      else if (A = ''float'' \<and> B = ''int'') \<or> (A = ''int'' \<and> B = ''float'') then Some ''float''
      else None)"

text \<open>The type of the node a constructor returns, or the error it throws.\<close>

definition resultType :: "(error + node) \<times> store \<Rightarrow> error + string" where
  "resultType r = (case fst r of Inl e \<Rightarrow> Inl e | Inr n \<Rightarrow> Inr (type_of n))"

section \<open>Example values\<close>

text \<open>
  A heap with no objects, in which every captured stack line reads the same, and the
  \<open>BaseNode\<close> fields of the user-made and of the internal object at an address. The
  engine's text of a number is given for the two large values the examples use:
  \<open>10^21\<close>, which JavaScript prints as \<open>1e+21\<close>, and \<open>2^64\<close>, which it prints
  as \<open>18446744073709552000\<close>.
\<close>

definition example_line :: string where
  "example_line = ''at modifier (sketch.js:7:3)''"

definition example_engine :: "rat \<Rightarrow> string" where
  "example_engine x =
     (if x = 10 ^ 21 then ''1e+21''
      else if x = 2 ^ 64 then ''18446744073709552000''
      else [])"

definition store_of :: "nat \<Rightarrow> (addr \<Rightarrow> addr list) \<Rightarrow> (addr \<Rightarrow> string option) \<Rightarrow> store" where
  "store_of n u t =
     \<lparr> next_addr = n, usedIn = u, temporaryVariable = t, stackLine = (\<lambda>a. example_line),
       numberText = example_engine \<rparr>"

definition empty_store :: store where
  "empty_store = store_of 0 (\<lambda>a. []) (\<lambda>a. None)"

definition user_base :: "addr \<Rightarrow> BaseNode" where
  "user_base a = \<lparr> nid = a, isInternal = False, srcLine = Some example_line \<rparr>"

definition internal_base :: "addr \<Rightarrow> BaseNode" where
  "internal_base a = \<lparr> nid = a, isInternal = True, srcLine = None \<rparr>"

definition example_vec2 :: node where
  "example_vec2 =
     VectorNode (user_base 0)
       [(''x'', FloatNode (internal_base 1) (JNumber 1)),
        (''y'', FloatNode (internal_base 2) (JNumber 2))] ''vec2''"

definition example_vec3 :: node where
  "example_vec3 =
     VectorNode (user_base 3)
       [(''x'', FloatNode (internal_base 4) (JNumber 0)),
        (''y'', FloatNode (internal_base 5) (JNumber 1)),
        (''z'', FloatNode (internal_base 6) (JNumber 0))] ''vec3''"

definition example_float :: node where
  "example_float = FloatNode (user_base 7) (JNumber (1 / 2))"

section \<open>The type table of binary operator nodes\<close>

lemma determineType_table:
  "determineType a b =
     (case promotion_table (type_of a) (type_of b) of
        Some t \<Rightarrow> Inr t
      | None \<Rightarrow> Inl (Error ''Incompatible types for binary operator''))"
  by (simp add: determineType_def promotion_table_def is_vector_type_def
      isVectorNode_def isFloatNode_def isIntNode_def)

lemma resultType_new_BinaryOperatorNode:
  "resultType (new_BinaryOperatorNode a b operator internal st) = determineType a b"
  by (simp add: resultType_def new_BinaryOperatorNode_def Let_def split: prod.splits sum.splits)

lemma resultType_new_ModulusNode:
  "resultType (new_ModulusNode a b st) = determineType a b"
  by (simp add: resultType_def new_ModulusNode_def Let_def split: prod.splits sum.splits)

text \<open>
  C1. Whatever the two operand nodes are, the constructor of a binary operator node
  (and of its modulus specialisation) returns a node whose type is read off the
  promotion table: equal operand types give that type, a vector type with \<open>float\<close> gives
  the vector type, \<open>float\<close> with \<open>int\<close> gives \<open>float\<close>. The constructor throws exactly
  for the remaining combinations, and what it throws is always the type mismatch error.
\<close>

theorem binary_result_type_table:
  "(let A = type_of a; B = type_of b;
        r = resultType (new_BinaryOperatorNode a b operator internal st)
    in (A = B \<longrightarrow> r = Inr A)
     \<and> (A \<noteq> B \<and> is_vector_type A \<and> B = ''float'' \<longrightarrow> r = Inr A)
     \<and> (A \<noteq> B \<and> is_vector_type B \<and> A = ''float'' \<longrightarrow> r = Inr B)
     \<and> (A = ''float'' \<and> B = ''int'' \<or> A = ''int'' \<and> B = ''float'' \<longrightarrow> r = Inr ''float'')
     \<and> (r = Inl (Error ''Incompatible types for binary operator'') \<longleftrightarrow>
          A \<noteq> B \<and> \<not> (is_vector_type A \<and> B = ''float'') \<and> \<not> (is_vector_type B \<and> A = ''float'')
          \<and> \<not> (A = ''float'' \<and> B = ''int'') \<and> \<not> (A = ''int'' \<and> B = ''float''))
     \<and> (\<forall>e. r = Inl e \<longrightarrow> e = Error ''Incompatible types for binary operator'')
     \<and> r = (case promotion_table A B of
               Some t \<Rightarrow> Inr t
             | None \<Rightarrow> Inl (Error ''Incompatible types for binary operator''))
     \<and> resultType (new_ModulusNode a b st) = r)"
  unfolding Let_def resultType_new_BinaryOperatorNode resultType_new_ModulusNode determineType_table
  by (auto simp: promotion_table_def is_vector_type_def)

theorem binary_result_type_table_witness:
  "resultType (new_BinaryOperatorNode example_vec2 example_vec3 ''+'' False empty_store)
     = Inl (Error ''Incompatible types for binary operator'')
   \<and> resultType (new_BinaryOperatorNode example_vec3 example_float ''*'' False empty_store)
     = Inr ''vec3''
   \<and> resultType (new_BinaryOperatorNode example_float example_vec2 ''*'' False empty_store)
     = Inr ''vec2''
   \<and> resultType (new_BinaryOperatorNode example_vec3 example_vec3 ''-'' False empty_store)
     = Inr ''vec3''"
proof -
  have t2: "type_of example_vec2 = ''vec2''" and t3: "type_of example_vec3 = ''vec3''"
    and tf: "type_of example_float = ''float''"
    by (simp_all add: example_vec2_def example_vec3_def example_float_def)
  note table = conjunct2 [THEN conjunct2, THEN conjunct2, THEN conjunct2, THEN conjunct2,
      THEN conjunct2, THEN conjunct1]
  have "resultType (new_BinaryOperatorNode example_vec2 example_vec3 ''+'' False empty_store)
          = Inl (Error ''Incompatible types for binary operator'')"
    using binary_result_type_table [of example_vec2 example_vec3 "''+''" False empty_store,
        unfolded Let_def, THEN table]
    by (simp add: t2 t3 promotion_table_def is_vector_type_def)
  moreover
  have "resultType (new_BinaryOperatorNode example_vec3 example_float ''*'' False empty_store)
          = Inr ''vec3''"
    using binary_result_type_table [of example_vec3 example_float "''*''" False empty_store,
        unfolded Let_def, THEN table]
    by (simp add: t3 tf promotion_table_def is_vector_type_def)
  moreover
  have "resultType (new_BinaryOperatorNode example_float example_vec2 ''*'' False empty_store)
          = Inr ''vec2''"
    using binary_result_type_table [of example_float example_vec2 "''*''" False empty_store,
        unfolded Let_def, THEN table]
    by (simp add: t2 tf promotion_table_def is_vector_type_def)
  moreover
  have "resultType (new_BinaryOperatorNode example_vec3 example_vec3 ''-'' False empty_store)
          = Inr ''vec3''"
    using binary_result_type_table [of example_vec3 example_vec3 "''-''" False empty_store,
        unfolded Let_def, THEN table]
    by (simp add: t3 promotion_table_def is_vector_type_def)
  ultimately show ?thesis
    by (simp only: simp_thms)
qed

section \<open>Evaluation on concrete values\<close>

lemma floor_rat_divide_numeral [simp]:
  "\<lfloor>numeral a / numeral b :: rat\<rfloor> = numeral a div numeral b"
  using floor_divide_of_int_eq [of "numeral a" "numeral b", where ?'a = rat] by simp

lemma floor_rat_minus_divide_numeral [simp]:
  "\<lfloor>- (numeral a / numeral b) :: rat\<rfloor> = - numeral a div numeral b"
  using floor_divide_of_int_eq [of "- numeral a" "numeral b", where ?'a = rat] by simp

lemma digit_char_0 [simp]: "digit_char 0 = CHR ''0''"
  by (simp add: digit_char_def)

lemma digit_char_1 [simp]: "digit_char (Suc 0) = CHR ''1''"
  by (simp add: digit_char_def)

lemma digit_char_numeral [simp]:
  "digit_char (numeral k) = ''0123456789'' ! (numeral k mod 10)"
  by (simp add: digit_char_def)

lemma string_of_nat_numeral [simp]:
  "string_of_nat (numeral k) =
     (if numeral k < (10::nat) then [digit_char (numeral k)]
      else string_of_nat (numeral k div 10) @ [digit_char (numeral k mod 10)])"
  by (rule string_of_nat.simps)

lemma string_of_nat_0 [simp]: "string_of_nat 0 = ''0''"
  by (simp add: string_of_nat.simps)

lemma string_of_nat_1 [simp]: "string_of_nat (Suc 0) = ''1''"
  by (simp add: string_of_nat.simps)

lemma replicate_numeral [simp]:
  "replicate (numeral k) x = x # replicate (numeral k - 1) x"
  by (simp add: numeral_eq_Suc)

declare toGLSLBase.simps [simp del] getTemp.simps [simp del] processOperand.simps [simp del]
  value_toGLSLBase.simps [simp del]

lemmas model_defs =
  toGLSLBase.simps getTemp.simps processOperand.simps value_toGLSLBase.simps
  createInt_def createFloat_def createVector2_def createVector3_def createVector4_def
  new_IntNode_def new_FloatNode_def new_VectorNode_def new_BaseNode_def new_FunctionCallNode_def
  new_VariableNode_def new_ComponentNode_def addComponent_def autoAddVectorComponents_def options_def
  new_BinaryOperatorNode_def new_ModulusNode_def push_usedIn_def determineType_def
  enforceType_def binary_method_def add_def sub_def mult_def div_node_def mod_node_def
  default_zero_def isIntNode_def isFloatNode_def isVectorNode_def isVariableNode_def
  useTempVar_def truthy_def getNextID_def toFixed_def floor_text_def string_of_int_def
  Let_def

lemmas example_defs =
  empty_store_def store_of_def user_base_def internal_base_def example_line_def

section \<open>Scenario: a vector used twice\<close>

text \<open>
  The user code \<open>v = createVector3(0, 1, 0); w = v.add(v)\<close>, run on the empty heap.
  \<open>v\<close> is then used twice, so its score is 4.
\<close>

definition vecV :: node where
  "vecV =
     VectorNode (user_base 0)
       [(''x'', FloatNode (internal_base 1) (JNumber 0)),
        (''y'', FloatNode (internal_base 2) (JNumber 1)),
        (''z'', FloatNode (internal_base 3) (JNumber 0))] ''vec3''"

definition sumW :: node where
  "sumW = BinaryOperatorNode (user_base 4) ''+'' vecV vecV ''vec3''"

definition store_W :: store where
  "store_W = store_of 5 ((\<lambda>a. [])(0 := [4, 4])) (\<lambda>a. None)"

definition fresh_context :: GLSLContext where
  "fresh_context = \<lparr> ctx_id = 0, declarations = [] \<rparr>"

definition decl_V :: string where
  "decl_V = newline @ ''// From at modifier (sketch.js:7:3)'' @ newline
       @ ''vec3 temp_0 = vec3(0.0000, 1.0000, 0.0000);''"

definition store_W_hoisted :: store where
  "store_W_hoisted = store_of 5 ((\<lambda>a. [])(0 := [4, 4])) ((\<lambda>a. None)(0 \<mapsto> ''temp_0''))"

lemma vecV_constructed:
  "createVector3 (JNumber 0) (JNumber 1) (JNumber 0) empty_store
     = (vecV, store_of 4 (\<lambda>a. []) (\<lambda>a. None))"
  by (simp add: model_defs example_defs vecV_def fun_eq_iff cong: let_weak_cong)

lemma sumW_constructed:
  "add vecV (NodeOperand vecV) (store_of 4 (\<lambda>a. []) (\<lambda>a. None)) = (Inr sumW, store_W)"
  by (simp add: model_defs example_defs vecV_def sumW_def store_W_def fun_eq_iff
      cong: let_weak_cong)

lemma vecV_first_render:
  "toGLSLBase vecV fresh_context store_W
     = (Inr ''temp_0'', \<lparr> ctx_id = 1, declarations = [decl_V] \<rparr>, store_W_hoisted)"
  by (simp add: model_defs example_defs vecV_def store_W_def store_W_hoisted_def
      fresh_context_def decl_V_def fun_eq_iff cong: let_weak_cong)

lemma vecV_second_render:
  "toGLSLBase vecV \<lparr> ctx_id = 1, declarations = [decl_V] \<rparr> store_W_hoisted
     = (Inr ''vec3(0.0000, 1.0000, 0.0000)'', \<lparr> ctx_id = 1, declarations = [decl_V] \<rparr>,
        store_W_hoisted)"
  by (simp add: model_defs example_defs vecV_def store_W_hoisted_def
      fun_eq_iff cong: let_weak_cong)

section \<open>The temporary-variable planner\<close>

text \<open>The score as the specification words it.\<close>

definition score :: "store \<Rightarrow> node \<Rightarrow> nat" where
  "score st n =
     (if isBinaryOperatorNode n then 1 else 0)
     + (if is_vector_type (type_of n) then 2 else 0)
     + length (usedIn st (nid (base n)))"

text \<open>The comment line \<open>getTemp\<close> puts before a declaration.\<close>

definition source_comment :: "node \<Rightarrow> string" where
  "source_comment n =
     (case truthy (srcLine (base n)) of
        Some l \<Rightarrow> newline @ ''// From '' @ l @ newline
      | None \<Rightarrow> [])"

lemma useTempVar_iff:
  "useTempVar st n \<longleftrightarrow> \<not> isVariableNode st n \<and> \<not> isInternal (base n) \<and> 3 < score st n"
  by (auto simp: useTempVar_def score_def isVectorNode_def is_vector_type_def Let_def)

lemma getTemp_no_cached:
  "temporaryVariable st (nid (base n)) = None \<Longrightarrow>
   getTemp n c st =
     (case toGLSL n (c\<lparr> ctx_id := ctx_id c + 1 \<rparr>)
             (st\<lparr> temporaryVariable :=
                   (temporaryVariable st)(nid (base n) \<mapsto> ''temp_'' @ string_of_nat (ctx_id c)) \<rparr>) of
        (Inl e, c2, st2) \<Rightarrow> (Inl e, c2, st2)
      | (Inr code, c2, st2) \<Rightarrow>
          (Inr (''temp_'' @ string_of_nat (ctx_id c)),
           c2\<lparr> declarations := declarations c2 @
              [source_comment n @ type_of n @ '' '' @ ''temp_'' @ string_of_nat (ctx_id c)
                 @ '' = '' @ code @ '';''] \<rparr>,
           st2))"
  unfolding source_comment_def
  by (simp add: getTemp.simps truthy_def [of None] getNextID_def Let_def
      split: prod.splits sum.splits)

text \<open>
  C2. The planner counts a node as a variable node when the helper \<open>isVariableNode\<close>
  accepts it. For every node about to be rendered, a temporary is allocated exactly when
  the node is neither a variable node nor internal and its score (1 for a binary
  operator node, 2 for a vector type, plus the number of entries of \<open>usedIn\<close>) exceeds
  3; variable nodes and internal nodes are never hoisted. When the planner decides to
  hoist, the renderer takes the name \<open>temp_N\<close> with \<open>N\<close> the context's counter, caches
  it on the node, renders the node's expression and appends one declaration.
\<close>

theorem hoist_policy:
  "(useTempVar st n \<longleftrightarrow> \<not> isVariableNode st n \<and> \<not> isInternal (base n) \<and> 3 < score st n)
   \<and> (isVariableNode st n \<or> isInternal (base n) \<longrightarrow> \<not> useTempVar st n)
   \<and> (useTempVar st n \<longrightarrow>
        toGLSLBase n c st =
          (case toGLSL n (c\<lparr> ctx_id := ctx_id c + 1 \<rparr>)
                  (st\<lparr> temporaryVariable :=
                        (temporaryVariable st)(nid (base n) \<mapsto> ''temp_'' @ string_of_nat (ctx_id c)) \<rparr>) of
             (Inl e, c2, st2) \<Rightarrow> (Inl e, c2, st2)
           | (Inr code, c2, st2) \<Rightarrow>
               (Inr (''temp_'' @ string_of_nat (ctx_id c)),
                c2\<lparr> declarations := declarations c2 @
                   [source_comment n @ type_of n @ '' '' @ ''temp_'' @ string_of_nat (ctx_id c)
                      @ '' = '' @ code @ '';''] \<rparr>,
                st2)))"
proof -
  have "useTempVar st n \<Longrightarrow> temporaryVariable st (nid (base n)) = None"
    by (simp add: useTempVar_iff isVariableNode_def)
  then show ?thesis
    using useTempVar_iff [of st n] getTemp_no_cached [of st n c]
    by (simp add: toGLSLBase.simps)
qed

theorem hoist_policy_witness:
  "useTempVar store_W vecV \<and> score store_W vecV = 4
   \<and> toGLSLBase vecV fresh_context store_W
        = (Inr ''temp_0'', \<lparr> ctx_id = 1, declarations = [decl_V] \<rparr>, store_W_hoisted)
   \<and> \<not> useTempVar store_W sumW \<and> score store_W sumW = 3
   \<and> \<not> useTempVar store_W (FloatNode (internal_base 1) (JNumber 0))"
proof -
  have s: "score store_W vecV = 4" "score store_W sumW = 3"
    by (simp_all add: score_def store_W_def store_of_def vecV_def sumW_def user_base_def
        is_vector_type_def)
  have b: "\<not> isInternal (base vecV)" "\<not> isVariableNode store_W vecV"
    "isInternal (base (FloatNode (internal_base 1) (JNumber 0)))"
    by (simp_all add: vecV_def user_base_def internal_base_def store_W_def store_of_def
        isVariableNode_def)
  from hoist_policy [of store_W vecV fresh_context, THEN conjunct1] s b
  have u: "useTempVar store_W vecV" by simp
  from hoist_policy [of store_W sumW fresh_context, THEN conjunct1] s
  have n: "\<not> useTempVar store_W sumW" by simp
  from hoist_policy [of store_W "FloatNode (internal_base 1) (JNumber 0)" fresh_context,
      THEN conjunct2, THEN conjunct1] b
  have i: "\<not> useTempVar store_W (FloatNode (internal_base 1) (JNumber 0))" by simp
  from u n i s vecV_first_render show ?thesis by simp
qed

section \<open>Rendering a hoisted node again\<close>

text \<open>
  The user code \<open>v = createVector3(0, 1, 0); w = v.add(v); r = w.add(v.abs())\<close>.
\<close>

definition absV :: node where
  "absV = FunctionCallNode (user_base 5) ''abs'' (ArgsValue (JNode vecV)) ''vec3''"

definition rootR :: node where
  "rootR = BinaryOperatorNode (user_base 6) ''+'' sumW absV ''vec3''"

definition store_R :: store where
  "store_R = store_of 7 ((\<lambda>a. [])(0 := [4, 4], 4 := [6], 5 := [6])) (\<lambda>a. None)"

lemma absV_constructed:
  "abs_node vecV store_W = (absV, store_of 6 ((\<lambda>a. [])(0 := [4, 4])) (\<lambda>a. None))"
  by (simp add: abs_node_def model_defs example_defs vecV_def absV_def store_W_def fun_eq_iff
      cong: let_weak_cong)

lemma rootR_constructed:
  "add sumW (NodeOperand absV) (store_of 6 ((\<lambda>a. [])(0 := [4, 4])) (\<lambda>a. None)) = (Inr rootR, store_R)"
  by (simp add: model_defs example_defs vecV_def sumW_def absV_def rootR_def store_R_def
      fun_eq_iff cong: let_weak_cong)

text \<open>
  C3 (the code departs from the claim). Rendered a first time, the vector of the
  scenario is hoisted: the text is \<open>temp_0\<close> and one declaration is appended. Rendered
  a second time in the same context, it appends nothing, but the text is the inline
  constructor call and not the cached name. In the third program the hoisted vector is
  referenced from a function call and its expression is emitted again.
\<close>

theorem second_render_is_inline:
  "toGLSLBase vecV fresh_context store_W
     = (Inr ''temp_0'', \<lparr> ctx_id = 1, declarations = [decl_V] \<rparr>, store_W_hoisted)
   \<and> toGLSLBase vecV \<lparr> ctx_id = 1, declarations = [decl_V] \<rparr> store_W_hoisted
     = (Inr ''vec3(0.0000, 1.0000, 0.0000)'', \<lparr> ctx_id = 1, declarations = [decl_V] \<rparr>,
        store_W_hoisted)
   \<and> fst (toGLSLBase rootR fresh_context store_R)
     = Inr ''temp_0 + abs(vec3(0.0000, 1.0000, 0.0000))''
   \<and> declarations (fst (snd (toGLSLBase rootR fresh_context store_R)))
     = [newline @ ''// From at modifier (sketch.js:7:3)'' @ newline
          @ ''vec3 temp_1 = vec3(0.0000, 1.0000, 0.0000);'',
        newline @ ''// From at modifier (sketch.js:7:3)'' @ newline
          @ ''vec3 temp_0 = temp_1 + temp_1;'']"
proof -
  have "toGLSLBase rootR fresh_context store_R
     = (Inr ''temp_0 + abs(vec3(0.0000, 1.0000, 0.0000))'',
        \<lparr> ctx_id = 2, declarations =
           [newline @ ''// From at modifier (sketch.js:7:3)'' @ newline
              @ ''vec3 temp_1 = vec3(0.0000, 1.0000, 0.0000);'',
            newline @ ''// From at modifier (sketch.js:7:3)'' @ newline
              @ ''vec3 temp_0 = temp_1 + temp_1;''] \<rparr>,
        store_of 7 ((\<lambda>a. [])(0 := [4, 4], 4 := [6], 5 := [6]))
          ((\<lambda>a. None)(0 \<mapsto> ''temp_1'', 4 \<mapsto> ''temp_0'')))"
    by (simp add: model_defs example_defs vecV_def sumW_def absV_def rootR_def store_R_def
        fresh_context_def fun_eq_iff cong: let_weak_cong)
  then show ?thesis
    using vecV_first_render vecV_second_render by simp
qed

section \<open>Scenario: an integer used four times in float expressions\<close>

text \<open>
  User code is a sequence of constructor calls, each of which may throw.
\<close>

definition and_then ::
  "(error + 'a) \<times> store \<Rightarrow> ('a \<Rightarrow> store \<Rightarrow> (error + 'b) \<times> store) \<Rightarrow> (error + 'b) \<times> store" where
  "and_then r f = (case r of (Inl e, s) \<Rightarrow> (Inl e, s) | (Inr x, s) \<Rightarrow> f x s)"

lemma and_then_Inr [simp]: "and_then (Inr x, s) f = f x s"
  by (simp add: and_then_def)

lemma and_then_Inl [simp]: "and_then (Inl e, s) f = (Inl e, s)"
  by (simp add: and_then_def)

text \<open>
  The user code \<open>i = createInt(1); f = createFloat(2);
  d = i.add(f).mult(i.add(f)).sub(i.add(f).mult(i.add(f)))\<close>, which the rewriter
  produces from \<open>(i + f) * (i + f) - (i + f) * (i + f)\<close>.
\<close>

definition int_program :: "(error + node) \<times> store" where
  "int_program =
     (let (i, s) = createInt (JNumber 1) empty_store;
          (f, s) = createFloat (JNumber 2) s
      in and_then (add i (NodeOperand f) s) (\<lambda>n2 s.
         and_then (add i (NodeOperand f) s) (\<lambda>n3 s.
         and_then (mult n2 (NodeOperand n3) s) (\<lambda>m4 s.
         and_then (add i (NodeOperand f) s) (\<lambda>n5 s.
         and_then (add i (NodeOperand f) s) (\<lambda>n6 s.
         and_then (mult n5 (NodeOperand n6) s) (\<lambda>m7 s.
         sub m4 (NodeOperand m7) s)))))))"

definition intI :: node where
  "intI = IntNode (user_base 0) (JNumber 1)"

definition floatF :: node where
  "floatF = FloatNode (user_base 1) (JNumber 2)"

definition sumIF :: "addr \<Rightarrow> node" where
  "sumIF k = BinaryOperatorNode (user_base k) ''+'' intI floatF ''float''"

definition prodM :: "addr \<Rightarrow> node \<Rightarrow> node \<Rightarrow> node" where
  "prodM k a b = BinaryOperatorNode (user_base k) ''*'' a b ''float''"

definition diffD :: node where
  "diffD =
     BinaryOperatorNode (user_base 8) ''-''
       (prodM 4 (sumIF 2) (sumIF 3)) (prodM 7 (sumIF 5) (sumIF 6)) ''float''"

definition store_D :: store where
  "store_D =
     store_of 9
       ((\<lambda>a. [])(0 := [2, 3, 5, 6], 1 := [2, 3, 5, 6], 2 := [4], 3 := [4], 5 := [7], 6 := [7],
          4 := [8], 7 := [8]))
       (\<lambda>a. None)"

definition store_D_hoisted :: store where
  "store_D_hoisted =
     store_of 9
       ((\<lambda>a. [])(0 := [2, 3, 5, 6], 1 := [2, 3, 5, 6], 2 := [4], 3 := [4], 5 := [7], 6 := [7],
          4 := [8], 7 := [8]))
       ((\<lambda>a. None)(0 \<mapsto> ''temp_0'', 1 \<mapsto> ''temp_1''))"

definition decls_D :: "string list" where
  "decls_D =
     [newline @ ''// From at modifier (sketch.js:7:3)'' @ newline @ ''int temp_0 = 1;'',
      newline @ ''// From at modifier (sketch.js:7:3)'' @ newline @ ''float temp_1 = 2.0000;'']"

lemmas int_nodes = intI_def floatF_def sumIF_def prodM_def diffD_def

lemma int_steps:
  "createInt (JNumber 1) empty_store = (intI, store_of 1 (\<lambda>a. []) (\<lambda>a. None))"
  "createFloat (JNumber 2) (store_of 1 (\<lambda>a. []) (\<lambda>a. None))
     = (floatF, store_of 2 (\<lambda>a. []) (\<lambda>a. None))"
  "add intI (NodeOperand floatF) (store_of 2 (\<lambda>a. []) (\<lambda>a. None))
     = (Inr (sumIF 2), store_of 3 ((\<lambda>a. [])(0 := [2], 1 := [2])) (\<lambda>a. None))"
  "add intI (NodeOperand floatF) (store_of 3 ((\<lambda>a. [])(0 := [2], 1 := [2])) (\<lambda>a. None))
     = (Inr (sumIF 3), store_of 4 ((\<lambda>a. [])(0 := [2, 3], 1 := [2, 3])) (\<lambda>a. None))"
  "mult (sumIF 2) (NodeOperand (sumIF 3)) (store_of 4 ((\<lambda>a. [])(0 := [2, 3], 1 := [2, 3])) (\<lambda>a. None))
     = (Inr (prodM 4 (sumIF 2) (sumIF 3)),
        store_of 5 ((\<lambda>a. [])(0 := [2, 3], 1 := [2, 3], 2 := [4], 3 := [4])) (\<lambda>a. None))"
  "add intI (NodeOperand floatF)
       (store_of 5 ((\<lambda>a. [])(0 := [2, 3], 1 := [2, 3], 2 := [4], 3 := [4])) (\<lambda>a. None))
     = (Inr (sumIF 5),
        store_of 6 ((\<lambda>a. [])(0 := [2, 3, 5], 1 := [2, 3, 5], 2 := [4], 3 := [4])) (\<lambda>a. None))"
  "add intI (NodeOperand floatF)
       (store_of 6 ((\<lambda>a. [])(0 := [2, 3, 5], 1 := [2, 3, 5], 2 := [4], 3 := [4])) (\<lambda>a. None))
     = (Inr (sumIF 6),
        store_of 7 ((\<lambda>a. [])(0 := [2, 3, 5, 6], 1 := [2, 3, 5, 6], 2 := [4], 3 := [4]))
          (\<lambda>a. None))"
  "mult (sumIF 5) (NodeOperand (sumIF 6))
       (store_of 7 ((\<lambda>a. [])(0 := [2, 3, 5, 6], 1 := [2, 3, 5, 6], 2 := [4], 3 := [4]))
          (\<lambda>a. None))
     = (Inr (prodM 7 (sumIF 5) (sumIF 6)),
        store_of 8 ((\<lambda>a. [])(0 := [2, 3, 5, 6], 1 := [2, 3, 5, 6], 2 := [4], 3 := [4],
          5 := [7], 6 := [7])) (\<lambda>a. None))"
  "sub (prodM 4 (sumIF 2) (sumIF 3)) (NodeOperand (prodM 7 (sumIF 5) (sumIF 6)))
       (store_of 8 ((\<lambda>a. [])(0 := [2, 3, 5, 6], 1 := [2, 3, 5, 6], 2 := [4], 3 := [4],
          5 := [7], 6 := [7])) (\<lambda>a. None))
     = (Inr diffD, store_D)"
  by (simp_all add: model_defs example_defs int_nodes store_D_def fun_eq_iff
      cong: let_weak_cong)

lemma int_program_constructed: "int_program = (Inr diffD, store_D)"
  unfolding int_program_def
  by (simp only: int_steps and_then_Inr Let_def prod.case)

lemma diffD_rendered:
  "toGLSLBase diffD fresh_context store_D
     = (Inr ''((float(temp_0) + temp_1) * (temp_0 + temp_1)) - ((temp_0 + temp_1) * (temp_0 + temp_1))'',
        \<lparr> ctx_id = 2, declarations = decls_D \<rparr>, store_D_hoisted)"
  by (simp add: model_defs example_defs int_nodes store_D_def store_D_hoisted_def decls_D_def
      fresh_context_def fun_eq_iff cong: let_weak_cong)

lemma hoisted_int_operand:
  "processOperand (sumIF 3) intI \<lparr> ctx_id = 2, declarations = decls_D \<rparr> store_D_hoisted
     = (Inr ''temp_0'', \<lparr> ctx_id = 2, declarations = decls_D \<rparr>, store_D_hoisted)"
  by (simp add: model_defs example_defs int_nodes store_D_hoisted_def cong: let_weak_cong)

text \<open>
  C6 (the code departs from the claim). The four sums of the program have type
  \<open>float\<close> and the integer \<open>i\<close> as their left operand. Operands that are binary
  operator nodes and are not hoisted are parenthesised, as claimed. The integer is hoisted
  when the first sum is rendered and is cast there; in the three later sums
  \<open>processOperand\<close> returns the cached name at once, without the cast.
\<close>

theorem cast_missing_on_cached_operand:
  "int_program = (Inr diffD, store_D)
   \<and> type_of (sumIF 3) = ''float'' \<and> isIntNode intI
   \<and> toGLSLBase diffD fresh_context store_D
       = (Inr ''((float(temp_0) + temp_1) * (temp_0 + temp_1)) - ((temp_0 + temp_1) * (temp_0 + temp_1))'',
          \<lparr> ctx_id = 2, declarations = decls_D \<rparr>, store_D_hoisted)
   \<and> processOperand (sumIF 3) intI \<lparr> ctx_id = 2, declarations = decls_D \<rparr> store_D_hoisted
       = (Inr ''temp_0'', \<lparr> ctx_id = 2, declarations = decls_D \<rparr>, store_D_hoisted)"
  using int_program_constructed diffD_rendered hoisted_int_operand
  by (simp add: sumIF_def intI_def isIntNode_def)

section \<open>Scenario: a texture lookup with a bias\<close>

text \<open>
  The user code \<open>t = uniformTexture('tex'); uv = uvCoords(); b = createFloat(1);
  c = texture(t, uv, b)\<close>, and the calls \<open>texture(t)\<close> and \<open>texture(t, uv)\<close> on
  the same operands.
\<close>

definition texture_program :: "(node option \<times> store) \<times> ShaderGenerator" where
  "texture_program =
     (let (t, g, s) = uniform ''sampler2D'' ''tex'' JUndefined new_ShaderGenerator empty_store;
          (uv, s) = uvCoords s;
          (b, s) = createFloat (JNumber 1) s
      in (texture [JNode t, JNode uv, JNode b] s, g))"

definition texT :: node where
  "texT = VariableNode (user_base 0) ''tex'' ''sampler2D'' []"

definition texUV :: node where
  "texUV =
     VariableNode (user_base 1) ''vTexCoord'' ''vec2''
       [(''x'', ComponentNode (internal_base 2) 1 ''vTexCoord'' ''x''),
        (''y'', ComponentNode (internal_base 3) 1 ''vTexCoord'' ''y'')]"

definition texB :: node where
  "texB = FloatNode (user_base 4) (JNumber 1)"

definition texture_call :: "jsvalue list \<Rightarrow> node" where
  "texture_call args = FunctionCallNode (user_base 5) ''texture'' (ArgsArray args) ''vec4''"

lemmas texture_nodes = texT_def texUV_def texB_def texture_call_def

lemma texture_steps:
  "uniform ''sampler2D'' ''tex'' JUndefined new_ShaderGenerator empty_store
     = (texT, new_ShaderGenerator\<lparr> uniforms := [(''sampler2D tex'', JUndefined)] \<rparr>,
        store_of 1 (\<lambda>a. []) (\<lambda>a. None))"
  "uvCoords (store_of 1 (\<lambda>a. []) (\<lambda>a. None)) = (texUV, store_of 4 (\<lambda>a. []) (\<lambda>a. None))"
  "createFloat (JNumber 1) (store_of 4 (\<lambda>a. []) (\<lambda>a. None))
     = (texB, store_of 5 (\<lambda>a. []) (\<lambda>a. None))"
  "texture (JNode texT # rest) (store_of 5 (\<lambda>a. []) (\<lambda>a. None))
     = (Some (texture_call (JNode texT # rest)), store_of 6 (\<lambda>a. []) (\<lambda>a. None))"
  by (simp_all add: uniform_def uvCoords_def texture_def new_ShaderGenerator_def
      resetGLSLContext_def model_defs example_defs texture_nodes fun_eq_iff
      cong: let_weak_cong)

lemma texture_program_constructed:
  "texture_program
     = ((Some (texture_call [JNode texT, JNode texUV, JNode texB]),
         store_of 6 (\<lambda>a. []) (\<lambda>a. None)),
        new_ShaderGenerator\<lparr> uniforms := [(''sampler2D tex'', JUndefined)] \<rparr>)"
  unfolding texture_program_def
  by (simp only: texture_steps Let_def prod.case)

text \<open>
  C8 (the code departs from the claim). With three arguments the rendered call holds
  the first two only; with one argument, given as an array, it holds the text
  \<open>undefined\<close>. Two arguments, and a single argument that is not in an array, are
  rendered as claimed.
\<close>

theorem arguments_dropped:
  "fst (fst texture_program) = Some (texture_call [JNode texT, JNode texUV, JNode texB])
   \<and> fst (toGLSLBase (texture_call [JNode texT, JNode texUV, JNode texB]) fresh_context
          (store_of 6 (\<lambda>a. []) (\<lambda>a. None)))
       = Inr ''texture(tex, vTexCoord)''
   \<and> fst (toGLSLBase (texture_call [JNode texT]) fresh_context
          (store_of 6 (\<lambda>a. []) (\<lambda>a. None)))
       = Inr ''texture(undefined)''
   \<and> fst (toGLSLBase (texture_call [JNode texT, JNode texUV]) fresh_context
          (store_of 6 (\<lambda>a. []) (\<lambda>a. None)))
       = Inr ''texture(tex, vTexCoord)''
   \<and> fst (toGLSLBase (fst (sin_node texB (store_of 5 (\<lambda>a. []) (\<lambda>a. None)))) fresh_context
          (store_of 6 (\<lambda>a. []) (\<lambda>a. None)))
       = Inr ''sin(1.0000)''"
  unfolding texture_program_constructed
  by (simp add: sin_node_def model_defs example_defs texture_nodes fresh_context_def
      cong: let_weak_cong)

section \<open>Scenario: one node used by both hooks\<close>

text \<open>
  The modifier function
  \<open>v = createVector3(0, 1, 0);
  getWorldPosition((pos) => pos.add(v).add(v));
  getFinalColor((col) => col.add(v))\<close>.
\<close>

definition world_hook :: "node \<Rightarrow> callback" where
  "world_hook v pos s =
     and_then (add pos (NodeOperand v) s) (\<lambda>a s.
     and_then (add a (NodeOperand v) s) (\<lambda>r s. (Inr (JNode r), s)))"

definition color_hook :: "node \<Rightarrow> callback" where
  "color_hook v col s = and_then (add col (NodeOperand v) s) (\<lambda>r s. (Inr (JNode r), s))"

definition two_hooks :: modifyFunction where
  "two_hooks g s =
     (let (v, s) = createVector3 (JNumber 0) (JNumber 1) (JNumber 0) s
      in case getWorldPosition (world_hook v) g s of
           (Some e, g, s) \<Rightarrow> (Some e, g, s)
         | (None, g, s) \<Rightarrow> getFinalColor (color_hook v) g s)"

definition argument_node :: "addr \<Rightarrow> string \<Rightarrow> node" where
  "argument_node a name =
     VariableNode (internal_base a) name ''vec3''
       [(''x'', ComponentNode (internal_base (a + 1)) a name ''x''),
        (''y'', ComponentNode (internal_base (a + 2)) a name ''y''),
        (''z'', ComponentNode (internal_base (a + 3)) a name ''z'')]"

definition pos_plus_v :: node where
  "pos_plus_v = BinaryOperatorNode (user_base 8) ''+'' (argument_node 4 ''pos'') vecV ''vec3''"

definition world_root :: node where
  "world_root = BinaryOperatorNode (user_base 9) ''+'' pos_plus_v vecV ''vec3''"

definition color_root :: node where
  "color_root = BinaryOperatorNode (user_base 14) ''+'' (argument_node 10 ''col'') vecV ''vec3''"

definition world_body :: string where
  "world_body =
     join newline
       [newline @ ''// From at modifier (sketch.js:7:3)'' @ newline
          @ ''vec3 temp_1 = vec3(0.0000, 1.0000, 0.0000);'',
        newline @ ''// From at modifier (sketch.js:7:3)'' @ newline
          @ ''vec3 temp_0 = pos + temp_1;'',
        newline @ ''pos = temp_0 + temp_1; '' @ newline @ ''return pos;'']"

definition color_body :: string where
  "color_body = newline @ ''col = col + temp_1; '' @ newline @ ''return col;''"

definition store_world :: store where
  "store_world =
     store_of 10 ((\<lambda>a. [])(0 := [8, 9], 4 := [8], 8 := [9]))
       ((\<lambda>a. None)(8 \<mapsto> ''temp_0'', 0 \<mapsto> ''temp_1''))"

definition store_color :: store where
  "store_color =
     store_of 15 ((\<lambda>a. [])(0 := [8, 9, 14], 4 := [8], 8 := [9], 10 := [14]))
       ((\<lambda>a. None)(8 \<mapsto> ''temp_0'', 0 \<mapsto> ''temp_1''))"

lemmas hook_nodes = vecV_def argument_node_def pos_plus_v_def world_root_def color_root_def

lemma world_steps:
  "new_VariableNode ''pos'' ''vec3'' True (store_of 4 (\<lambda>a. []) (\<lambda>a. None))
     = (argument_node 4 ''pos'', store_of 8 (\<lambda>a. []) (\<lambda>a. None))"
  "add (argument_node 4 ''pos'') (NodeOperand vecV) (store_of 8 (\<lambda>a. []) (\<lambda>a. None))
     = (Inr pos_plus_v, store_of 9 ((\<lambda>a. [])(0 := [8], 4 := [8])) (\<lambda>a. None))"
  "add pos_plus_v (NodeOperand vecV) (store_of 9 ((\<lambda>a. [])(0 := [8], 4 := [8])) (\<lambda>a. None))
     = (Inr world_root, store_of 10 ((\<lambda>a. [])(0 := [8, 9], 4 := [8], 8 := [9])) (\<lambda>a. None))"
  by (simp_all add: model_defs example_defs hook_nodes fun_eq_iff cong: let_weak_cong)

lemma world_rendered:
  "value_toGLSLBase (JNode world_root) fresh_context
       (store_of 10 ((\<lambda>a. [])(0 := [8, 9], 4 := [8], 8 := [9])) (\<lambda>a. None))
     = (Inr ''temp_0 + temp_1'',
        \<lparr> ctx_id = 2, declarations =
           [newline @ ''// From at modifier (sketch.js:7:3)'' @ newline
              @ ''vec3 temp_1 = vec3(0.0000, 1.0000, 0.0000);'',
            newline @ ''// From at modifier (sketch.js:7:3)'' @ newline
              @ ''vec3 temp_0 = pos + temp_1;''] \<rparr>,
        store_world)"
  by (simp add: model_defs example_defs hook_nodes store_world_def fresh_context_def
      fun_eq_iff cong: let_weak_cong)

lemma color_steps:
  "new_VariableNode ''col'' ''vec3'' True store_world
     = (argument_node 10 ''col'',
        store_of 14 ((\<lambda>a. [])(0 := [8, 9], 4 := [8], 8 := [9]))
          ((\<lambda>a. None)(8 \<mapsto> ''temp_0'', 0 \<mapsto> ''temp_1'')))"
  "add (argument_node 10 ''col'') (NodeOperand vecV)
       (store_of 14 ((\<lambda>a. [])(0 := [8, 9], 4 := [8], 8 := [9]))
          ((\<lambda>a. None)(8 \<mapsto> ''temp_0'', 0 \<mapsto> ''temp_1'')))
     = (Inr color_root, store_color)"
  by (simp_all add: model_defs example_defs hook_nodes store_world_def store_color_def
      fun_eq_iff cong: let_weak_cong)

lemma color_rendered:
  "value_toGLSLBase (JNode color_root) fresh_context store_color
     = (Inr ''col + temp_1'', fresh_context, store_color)"
  by (simp add: model_defs example_defs hook_nodes store_color_def fresh_context_def
      cong: let_weak_cong)

lemma world_hook_built:
  "getWorldPosition (world_hook vecV) new_ShaderGenerator (store_of 4 (\<lambda>a. []) (\<lambda>a. None))
     = (None,
        \<lparr> uniforms = [], hook_functions = [(''getWorldPosition'', world_body)],
          glsl_context = fresh_context \<rparr>,
        store_world)"
proof -
  have g: "glsl_context new_ShaderGenerator = fresh_context"
    by (simp add: new_ShaderGenerator_def resetGLSLContext_def fresh_context_def)
  have "buildFunction ''pos'' ''vec3'' (world_hook vecV) new_ShaderGenerator
          (store_of 4 (\<lambda>a. []) (\<lambda>a. None))
        = (Inr world_body, new_ShaderGenerator, store_world)"
    unfolding buildFunction_def world_hook_def
    by (simp add: world_steps world_rendered g and_then_Inr)
      (simp add: world_body_def new_ShaderGenerator_def resetGLSLContext_def)
  then show ?thesis
    by (simp add: getWorldPosition_def new_ShaderGenerator_def resetGLSLContext_def
        fresh_context_def)
qed

lemma color_hook_built:
  "getFinalColor (color_hook vecV)
       \<lparr> uniforms = [], hook_functions = [(''getWorldPosition'', world_body)],
         glsl_context = fresh_context \<rparr>
       store_world
     = (None,
        \<lparr> uniforms = [],
          hook_functions = [(''getWorldPosition'', world_body), (''getFinalColor'', color_body)],
          glsl_context = fresh_context \<rparr>,
        store_color)"
proof -
  have "buildFunction ''col'' ''vec3'' (color_hook vecV)
          \<lparr> uniforms = [], hook_functions = [(''getWorldPosition'', world_body)],
            glsl_context = fresh_context \<rparr>
          store_world
        = (Inr color_body,
           \<lparr> uniforms = [], hook_functions = [(''getWorldPosition'', world_body)],
             glsl_context = fresh_context \<rparr>,
           store_color)"
    unfolding buildFunction_def color_hook_def
    by (simp add: color_steps color_rendered and_then_Inr)
      (simp add: color_body_def resetGLSLContext_def fresh_context_def)
  then show ?thesis
    by (simp add: getFinalColor_def)
qed

text \<open>
  C5 (the code departs from the second half of the claim). After the first hook is
  built the context is the fresh one: counter 0 and no declaration, as claimed. The body
  of the second hook refers to \<open>temp_1\<close>, the name the shared vector got while the
  first hook was rendered; its declaration stands in the first hook's body only.
\<close>

theorem temporary_name_leaks_into_second_hook:
  "two_hooks new_ShaderGenerator empty_store
     = (None,
        \<lparr> uniforms = [],
          hook_functions = [(''getWorldPosition'', world_body), (''getFinalColor'', color_body)],
          glsl_context = \<lparr> ctx_id = 0, declarations = [] \<rparr> \<rparr>,
        store_color)
   \<and> glsl_context (fst (snd (getWorldPosition (world_hook vecV) new_ShaderGenerator
          (store_of 4 (\<lambda>a. []) (\<lambda>a. None)))))
       = \<lparr> ctx_id = 0, declarations = [] \<rparr>
   \<and> color_body = newline @ ''col = col + temp_1; '' @ newline @ ''return col;''
   \<and> temporaryVariable store_world 0 = Some ''temp_1''"
  unfolding two_hooks_def vecV_constructed [unfolded empty_store_def] empty_store_def
  by (simp add: world_hook_built color_hook_built)
    (simp add: fresh_context_def color_body_def store_world_def store_of_def)

section \<open>The operator rewriter\<close>

text \<open>The five arithmetic operators and the method the specification gives each.\<close>

definition arithmetic_operators :: "string list" where
  "arithmetic_operators = [''+'', ''-'', ''*'', ''/'', ''%'']"

definition method_of :: "string \<Rightarrow> string" where
  "method_of operator =
     (if operator = ''+'' then ''add''
      else if operator = ''-'' then ''sub''
      else if operator = ''*'' then ''mult''
      else if operator = ''/'' then ''div''
      else ''mod'')"

text \<open>The call \<open>object.method(argument)\<close> as a syntax tree.\<close>

definition method_call :: "expr \<Rightarrow> string \<Rightarrow> expr \<Rightarrow> expr" where
  "method_call object method argument =
     CallExpression (MemberExpression object (Identifier (Some method)) False) [argument]"

lemma replaceBinaryOperator_arithmetic:
  "operator \<in> set arithmetic_operators \<Longrightarrow>
   replaceBinaryOperator operator = Some (method_of operator)"
  by (auto simp: arithmetic_operators_def replaceBinaryOperator_def method_of_def)

lemma rewrite_binary:
  "operator \<in> set arithmetic_operators \<Longrightarrow>
   simple (BinaryExpression operator a b) = method_call (simple a) (method_of operator) (simple b)"
  by (simp add: BinaryExpression_callback_def method_call_def replaceBinaryOperator_arithmetic)

lemma rewrite_compound_identifier:
  "operator \<in> set arithmetic_operators \<Longrightarrow>
   simple (AssignmentExpression (operator @ ''='') (Identifier (Some x)) y)
     = AssignmentExpression ''='' (Identifier (Some x))
         (method_call (Identifier (Some x)) (method_of operator) (simple y))"
  by (auto simp: AssignmentExpression_callback_def method_call_def arithmetic_operators_def
      replaceBinaryOperator_def method_of_def)

lemma rewrite_plain_assignment:
  "simple (AssignmentExpression ''='' x y) = AssignmentExpression ''='' (simple x) (simple y)"
  by (simp add: AssignmentExpression_callback_def)

lemma rewrite_grouping:
  "simple (BinaryExpression ''-'' (Identifier (Some ''a''))
             (BinaryExpression ''*'' (Identifier (Some ''b'')) (Identifier (Some ''c''))))
     = method_call (Identifier (Some ''a'')) ''sub''
         (method_call (Identifier (Some ''b'')) ''mult'' (Identifier (Some ''c'')))"
  by (simp add: BinaryExpression_callback_def method_call_def replaceBinaryOperator_def)

text \<open>
  C4 (the code departs from the claim on compound assignments). The statement
  \<open>v.x += 1\<close> is rewritten to an assignment whose right side calls \<open>add\<close> on an
  identifier with no name, not on \<open>v.x\<close>: the callback builds the receiver from
  \<open>node.left.name\<close>, which only an identifier has. Binary expressions with one of the
  five operators, compound assignments to an identifier, plain assignments and the
  grouping of \<open>a - b * c\<close> are rewritten as claimed (the four lemmas above).
\<close>

theorem compound_assignment_to_member:
  "simple (AssignmentExpression ''+=''
             (MemberExpression (Identifier (Some ''v'')) (Identifier (Some ''x'')) False)
             (Literal ''1''))
     = AssignmentExpression ''=''
         (MemberExpression (Identifier (Some ''v'')) (Identifier (Some ''x'')) False)
         (method_call (Identifier None) ''add'' (Literal ''1''))
   \<and> simple (AssignmentExpression ''+=''
             (MemberExpression (Identifier (Some ''v'')) (Identifier (Some ''x'')) False)
             (Literal ''1''))
     \<noteq> AssignmentExpression ''=''
         (MemberExpression (Identifier (Some ''v'')) (Identifier (Some ''x'')) False)
         (method_call
            (MemberExpression (Identifier (Some ''v'')) (Identifier (Some ''x'')) False)
            ''add'' (Literal ''1''))"
  by (simp add: AssignmentExpression_callback_def method_call_def replaceBinaryOperator_def)

section \<open>Numeric literals\<close>





lemma digit_char_mod [simp]: "digit_char (n mod 10) = digit_char n"
  by (simp add: digit_char_def)











section \<open>Accessors of a vector variable\<close>

text \<open>The accessor of a component: an internal component node of the variable at \<open>parent\<close>.\<close>

definition accessor :: "addr \<Rightarrow> addr \<Rightarrow> string \<Rightarrow> string \<Rightarrow> string \<times> node" where
  "accessor a parent name component =
     (component, ComponentNode (internal_base a) parent name component)"

lemma new_VariableNode_properties:
  "properties (fst (new_VariableNode name t internal st))
     = map (\<lambda>(i, component). accessor (next_addr st + Suc i) (next_addr st) name component)
         (enumerate 0 (options t))"
  by (simp add: new_VariableNode_def autoAddVectorComponents_def options_def addComponent_def
      new_ComponentNode_def new_BaseNode_def accessor_def internal_base_def Let_def)

text \<open>
  C9 (amended). A variable node of a vector type owns, immediately after construction,
  one accessor per axis of its type and no other: \<open>x\<close> and \<open>y\<close> for \<open>vec2\<close>; \<open>x\<close>,
  \<open>y\<close> and \<open>z\<close> for \<open>vec3\<close>; \<open>x\<close>, \<open>y\<close>, \<open>z\<close> and \<open>w\<close> for \<open>vec4\<close>. Each is a
  fresh internal component node of that variable, and a component node is typed float.
\<close>

theorem vector_accessors:
  "properties (fst (new_VariableNode name ''vec2'' internal st))
     = [accessor (next_addr st + 1) (next_addr st) name ''x'',
        accessor (next_addr st + 2) (next_addr st) name ''y'']
   \<and> properties (fst (new_VariableNode name ''vec3'' internal st))
     = [accessor (next_addr st + 1) (next_addr st) name ''x'',
        accessor (next_addr st + 2) (next_addr st) name ''y'',
        accessor (next_addr st + 3) (next_addr st) name ''z'']
   \<and> properties (fst (new_VariableNode name ''vec4'' internal st))
     = [accessor (next_addr st + 1) (next_addr st) name ''x'',
        accessor (next_addr st + 2) (next_addr st) name ''y'',
        accessor (next_addr st + 3) (next_addr st) name ''z'',
        accessor (next_addr st + 4) (next_addr st) name ''w'']
   \<and> instanceof_ComponentNode (snd (accessor a parent name component))
   \<and> type_of (snd (accessor a parent name component)) = ''float''
   \<and> nid (base (fst (new_VariableNode name t internal st))) = next_addr st"
proof -
  have "nid (base (fst (new_VariableNode name t internal st))) = next_addr st"
    by (simp add: new_VariableNode_def autoAddVectorComponents_def options_def addComponent_def
        new_ComponentNode_def new_BaseNode_def Let_def)
  moreover have a: "next_addr st + 3 = Suc (Suc (Suc (next_addr st)))"
    "next_addr st + 4 = Suc (Suc (Suc (Suc (next_addr st))))"
    by simp_all
  ultimately show ?thesis
    by (simp add: new_VariableNode_properties options_def accessor_def a)
qed

text \<open>
  The claim as stated fails on \<open>vec2\<close> and \<open>vec3\<close>: the variable \<open>vTexCoord\<close> of type
  \<open>vec2\<close> owns two accessors, \<open>x\<close> and \<open>y\<close>, not four; it has no \<open>z\<close> and no \<open>w\<close>.
\<close>

theorem vector_accessors_counterexample:
  "map fst (properties (fst (new_VariableNode ''vTexCoord'' ''vec2'' True empty_store)))
     = [''x'', ''y'']
   \<and> length (properties (fst (new_VariableNode ''vTexCoord'' ''vec2'' True empty_store))) \<noteq> 4
   \<and> map_of (properties (fst (new_VariableNode ''vTexCoord'' ''vec2'' True empty_store))) ''z''
     = None
   \<and> map_of (properties (fst (new_VariableNode ''vTexCoord'' ''vec2'' True empty_store))) ''w''
     = None"
  by (simp add: new_VariableNode_properties options_def accessor_def)

section \<open>The entry point on a modifier that is not a function\<close>

text \<open>Externals for an example: the parser rejects every source text.\<close>

definition example_externals :: "(nat, nat) externals" where
  "example_externals =
     \<lparr> parse = (\<lambda>code. Inl (Error ''SyntaxError'')),
       generate = (\<lambda>ast. []),
       new_Function = (\<lambda>body. Inl (Error ''SyntaxError'')),
       oldModify = Suc \<rparr>"

text \<open>
  C10. On a modifier that is not a function the entry point returns what the previous
  \<open>modify\<close> returns on the same argument; nothing is printed, the shader's hooks are
  not inspected, no node is made (the heap is unchanged), and the result does not depend
  on the parser, the code generator or the evaluation of generated source, so none of
  them is consulted. On a function the previous \<open>modify\<close> is not consulted and its
  result is never returned; the parser is, and what it throws is thrown by \<open>modify\<close>.
\<close>

theorem non_function_is_delegated:
  "modify ext (OtherValue v) st = (Inr (Some (oldModify ext v)), [], st)
   \<and> modify (ext\<lparr> parse := p, generate := g, new_Function := f \<rparr>) (OtherValue v) st
     = modify ext (OtherValue v) st
   \<and> modify (ext\<lparr> oldModify := m \<rparr>) (FunctionValue code) st
     = modify ext (FunctionValue code) st
   \<and> fst (modify ext (FunctionValue code) st) \<noteq> Inr (Some r)
   \<and> (parse ext code = Inl e \<longrightarrow> modify ext (FunctionValue code) st = (Inl e, [], st))"
  by (simp add: modify_def Let_def split: sum.splits prod.splits)

theorem non_function_is_delegated_witness:
  "modify example_externals (OtherValue 3) empty_store = (Inr (Some 4), [], empty_store)
   \<and> parse example_externals ''() => {}'' = Inl (Error ''SyntaxError'')
   \<and> modify example_externals (FunctionValue ''() => {}'') empty_store
     = (Inl (Error ''SyntaxError''), [], empty_store)"
proof -
  have p: "parse example_externals ''() => {}'' = Inl (Error ''SyntaxError'')"
    by (simp add: example_externals_def)
  note t = non_function_is_delegated [of example_externals _ empty_store]
  from t [of 3, THEN conjunct1]
  have 1: "modify example_externals (OtherValue 3) empty_store = (Inr (Some 4), [], empty_store)"
    by (simp add: example_externals_def)
  from t [of 3 _ _ _ _ "''() => {}''" _ "Error ''SyntaxError''"] p
  have 2: "modify example_externals (FunctionValue ''() => {}'') empty_store
     = (Inl (Error ''SyntaxError''), [], empty_store)"
    by blast
  from 1 p 2 show ?thesis by (simp only: simp_thms)
qed

end
